theory Spec2Isabelle
  imports Main "HOL-Library.Char_ord" "HOL-Library.List_Lexorder"
begin

chapter \<open>Litefab-chain: canonical serialization, world state, endorsement and commit\<close>

text \<open>
  A shallow embedding of the parts of Litefab-chain that carry its consistency
  machinery: \<^verbatim>\<open>src/crypto\<close> (canonical serialization), \<^verbatim>\<open>src/storage\<close>
  (ledger and versioned world state), \<^verbatim>\<open>src/chaincode\<close> (execution context and
  chaincode metadata), \<^verbatim>\<open>src/msp\<close> (signature verification with role
  enforcement), \<^verbatim>\<open>src/peer\<close> (the committer) and \<^verbatim>\<open>src/consensus\<close> (Solo).

  Conventions. A TypeScript interface is a record, a value of type \<^verbatim>\<open>T | null\<close> an
  option, an exception a value \<open>Inl e\<close> of a sum. \<^verbatim>\<open>async\<close> functions are modelled by
  their results: the committer awaits every storage call before the next statement, so
  the order of effects is the order of the statements. LevelDB input/output failures are
  outside the model. The primitives of \<^verbatim>\<open>node:crypto\<close> (RSA verification, SHA-256),
  the clock and \<^verbatim>\<open>JSON.parse\<close> on a chaincode metadata text are parameters, collected
  in the record \<open>env\<close>.
\<close>

section \<open>JavaScript values and \<^verbatim>\<open>JSON.stringify\<close>\<close>

datatype error = TypeError string | SyntaxError string

definition bindE :: "error + 'a \<Rightarrow> ('a \<Rightarrow> error + 'b) \<Rightarrow> error + 'b" where
  "bindE m f = (case m of Inl e \<Rightarrow> Inl e | Inr x \<Rightarrow> f x)"

text \<open>
  The values \<^verbatim>\<open>JSON.stringify\<close> is applied to in this program: null, booleans,
  integers, strings, arrays and plain objects. An object is the list of its own
  enumerable properties in enumeration order; a property whose value is
  \<^verbatim>\<open>undefined\<close> is left out of the list, as \<^verbatim>\<open>JSON.stringify\<close> skips it.
\<close>

datatype json =
    JNull
  | JBool bool
  | JNum int
  | JStr string
  | JArr "json list"
  | JObj "(string \<times> json) list"

definition dquote :: char where
  "dquote = CHR 0x22"

definition backslash :: char where
  "backslash = CHR 0x5C"

definition hexDigit :: "nat \<Rightarrow> char" where
  "hexDigit n = ''0123456789abcdef'' ! (n mod 16)"

text \<open>
  \<^verbatim>\<open>QuoteJSONString\<close> of ECMA-262 on one character: the two-character escapes, the
  \<^verbatim>\<open>\u00XX\<close> form for the other control characters, the character itself otherwise.
  Characters are bytes here; bytes from 0x80 on pass unchanged.
\<close>

definition quoteChar :: "char \<Rightarrow> string" where
  "quoteChar c =
     (if c = CHR 0x08 then [backslash, CHR ''b'']
      else if c = CHR 0x09 then [backslash, CHR ''t'']
      else if c = CHR 0x0A then [backslash, CHR ''n'']
      else if c = CHR 0x0C then [backslash, CHR ''f'']
      else if c = CHR 0x0D then [backslash, CHR ''r'']
      else if c = dquote then [backslash, dquote]
      else if c = backslash then [backslash, backslash]
      else if (of_char c :: nat) < 32
        then [backslash, CHR ''u'', CHR ''0'', CHR ''0'',
              hexDigit (of_char c div 16), hexDigit (of_char c mod 16)]
      else [c])"

definition QuoteJSONString :: "string \<Rightarrow> string" where
  "QuoteJSONString s = dquote # concat (map quoteChar s) @ [dquote]"

fun digits :: "nat \<Rightarrow> string" where
  "digits n =
     (if n < 10 then [char_of (48 + n)]
      else digits (n div 10) @ [char_of (48 + n mod 10)])"

text \<open>\<^verbatim>\<open>Number.prototype.toString\<close> on an integer.\<close>

definition numberToString :: "int \<Rightarrow> string" where
  "numberToString n = (if n < 0 then CHR ''-'' # digits (nat (- n)) else digits (nat n))"

fun joinWith :: "string \<Rightarrow> string list \<Rightarrow> string" where
  "joinWith sep [] = []"
| "joinWith sep [x] = x"
| "joinWith sep (x # y # ys) = x @ sep @ joinWith sep (y # ys)"

text \<open>
  \<^verbatim>\<open>SerializeJSONProperty\<close> with the state's \<^verbatim>\<open>PropertyList\<close> (\<open>None\<close> when
  \<^verbatim>\<open>JSON.stringify\<close> is called without a replacer, \<open>Some K\<close> when the replacer is
  the array \<open>K\<close>) and no indentation. For an object, ECMA-262 takes the keys \<open>K\<close>
  from the property list when there is one, and from the object otherwise; for each
  key \<open>P\<close> of \<open>K\<close> in order it reads the property \<open>P\<close> of the object and, when it is
  defined, emits \<^verbatim>\<open>"P":value\<close>. The same property list is used at every depth.
  The elements of an array are all serialized, whatever the property list.
\<close>

fun SerializeJSONProperty :: "string list option \<Rightarrow> json \<Rightarrow> string" where
  "SerializeJSONProperty pl JNull = ''null''"
| "SerializeJSONProperty pl (JBool b) = (if b then ''true'' else ''false'')"
| "SerializeJSONProperty pl (JNum n) = numberToString n"
| "SerializeJSONProperty pl (JStr s) = QuoteJSONString s"
| "SerializeJSONProperty pl (JArr xs) =
     ''['' @ joinWith '','' (map (SerializeJSONProperty pl) xs) @ '']''"
| "SerializeJSONProperty pl (JObj kvs) =
     (let rendered = map (\<lambda>kv. (fst kv, SerializeJSONProperty pl (snd kv))) kvs;
          K = (case pl of None \<Rightarrow> remdups (map fst kvs) | Some ps \<Rightarrow> ps)
      in ''{'' @
         joinWith '',''
           (concat (map (\<lambda>P. case map_of rendered P of
                                 None \<Rightarrow> []
                               | Some strP \<Rightarrow> [QuoteJSONString P @ '':'' @ strP]) K)) @
         ''}'')"

definition JSON_stringify :: "json \<Rightarrow> string list option \<Rightarrow> string" where
  "JSON_stringify v replacer = SerializeJSONProperty replacer v"

text \<open>
  \<^verbatim>\<open>Object.keys\<close>: the own enumerable string keys. It throws on null; an array and a
  string have their indices as keys, a number and a boolean have none.
\<close>

definition ObjectKeys :: "json \<Rightarrow> error + string list" where
  "ObjectKeys v =
     (case v of
        JNull \<Rightarrow> Inl (TypeError ''Cannot convert undefined or null to object'')
      | JBool b \<Rightarrow> Inr []
      | JNum n \<Rightarrow> Inr []
      | JStr s \<Rightarrow> Inr (map digits [0..<length s])
      | JArr xs \<Rightarrow> Inr (map digits [0..<length xs])
      | JObj kvs \<Rightarrow> Inr (remdups (map fst kvs)))"

text \<open>
  \<^verbatim>\<open>src/crypto/index.ts\<close>:
  \<^verbatim>\<open>return JSON.stringify(obj, Object.keys(obj).sort());\<close>
  \<^verbatim>\<open>Array.prototype.sort\<close> without a comparator orders strings by their code units,
  which is the lexicographic order of \<open>string\<close>.
\<close>

definition canonicalStringify :: "json \<Rightarrow> error + string" where
  "canonicalStringify obj =
     bindE (ObjectKeys obj) (\<lambda>keys. Inr (JSON_stringify obj (Some (sort keys))))"

section \<open>Types (\<^verbatim>\<open>src/types/index.ts\<close>)\<close>

datatype TxType = DEPLOY_CHAINCODE | INVOKE_CHAINCODE

text \<open>
  The three policy types are string literals in the source, and
  \<^verbatim>\<open>checkEndorsementPolicy\<close> has a \<^verbatim>\<open>default\<close> branch for any other string, so
  the type tag is kept as a string.
\<close>

record EndorsementPolicy =
  policy_type :: string
  orgs :: "string list"

record TxPayload =
  payload_type :: TxType
  chaincodeId :: string
  functionName :: "string option"
  args :: "string list option"
  endorsementPolicy :: "EndorsementPolicy option"

record Version =
  blockNum :: int
  txNum :: int

record ReadVersion =
  read_key :: string
  read_version :: "Version option"

record WriteEntry =
  write_key :: string
  write_value :: "string option"

record RWSet =
  reads :: "ReadVersion list"
  writes :: "WriteEntry list"

record Endorsement =
  endorserId :: string
  endorserOrgId :: string
  signature :: string

record TransactionEnvelope =
  txId :: string
  creatorId :: string
  creatorOrgId :: string
  creatorPubKey :: string
  payload :: TxPayload
  rwSet :: RWSet
  result :: "string option"
  endorsements :: "Endorsement list"
  clientSignature :: string

record BlockHeader =
  number :: int
  previousHash :: string
  dataHash :: string

datatype ValidationCode =
    VALID
  | ENDORSEMENT_POLICY_FAILURE
  | MVCC_READ_CONFLICT
  | BAD_PAYLOAD
  | MSP_VALIDATION_FAILED

text \<open>The result \<^verbatim>\<open>{ code, message? }\<close> of the committer's validation functions.\<close>

record Validation =
  code :: ValidationCode
  message :: "string option"

record TxValidationInfo =
  info_txId :: string
  info_code :: ValidationCode
  info_message :: "string option"

record BlockMetadata =
  timestamp :: string
  ordererId :: string
  ordererSignature :: string
  validationInfo :: "TxValidationInfo list option"

record Block =
  header :: BlockHeader
  transactions :: "TransactionEnvelope list"
  metadata :: BlockMetadata

datatype Role = ADMIN | CLIENT | PEER | ORDERER

record Identity =
  identity_id :: string
  orgId :: string
  role :: Role
  publicKey :: string

subsection \<open>The typed values as JavaScript objects\<close>

text \<open>
  What \<^verbatim>\<open>JSON.stringify\<close> sees of each typed value: an optional field that is
  absent is no member of the object, a \<^verbatim>\<open>null\<close> is \<open>JNull\<close>.
\<close>

definition optionalMember :: "string \<Rightarrow> ('a \<Rightarrow> json) \<Rightarrow> 'a option \<Rightarrow> (string \<times> json) list" where
  "optionalMember name f v = (case v of None \<Rightarrow> [] | Some x \<Rightarrow> [(name, f x)])"

definition nullable :: "('a \<Rightarrow> json) \<Rightarrow> 'a option \<Rightarrow> json" where
  "nullable f v = (case v of None \<Rightarrow> JNull | Some x \<Rightarrow> f x)"

definition jsonOfTxType :: "TxType \<Rightarrow> json" where
  "jsonOfTxType t =
     (case t of DEPLOY_CHAINCODE \<Rightarrow> JStr ''DEPLOY_CHAINCODE''
              | INVOKE_CHAINCODE \<Rightarrow> JStr ''INVOKE_CHAINCODE'')"

definition jsonOfPolicy :: "EndorsementPolicy \<Rightarrow> json" where
  "jsonOfPolicy p = JObj [(''type'', JStr (policy_type p)), (''orgs'', JArr (map JStr (orgs p)))]"

definition jsonOfPayload :: "TxPayload \<Rightarrow> json" where
  "jsonOfPayload p = JObj
     ([(''type'', jsonOfTxType (payload_type p)), (''chaincodeId'', JStr (chaincodeId p))] @
      optionalMember ''functionName'' JStr (functionName p) @
      optionalMember ''args'' (\<lambda>as. JArr (map JStr as)) (args p) @
      optionalMember ''endorsementPolicy'' jsonOfPolicy (endorsementPolicy p))"

definition jsonOfVersion :: "Version \<Rightarrow> json" where
  "jsonOfVersion v = JObj [(''blockNum'', JNum (blockNum v)), (''txNum'', JNum (txNum v))]"

definition jsonOfReadVersion :: "ReadVersion \<Rightarrow> json" where
  "jsonOfReadVersion r = JObj
     [(''key'', JStr (read_key r)), (''version'', nullable jsonOfVersion (read_version r))]"

definition jsonOfWriteEntry :: "WriteEntry \<Rightarrow> json" where
  "jsonOfWriteEntry w = JObj
     [(''key'', JStr (write_key w)), (''value'', nullable JStr (write_value w))]"

definition jsonOfRWSet :: "RWSet \<Rightarrow> json" where
  "jsonOfRWSet rw = JObj
     [(''reads'', JArr (map jsonOfReadVersion (reads rw))),
      (''writes'', JArr (map jsonOfWriteEntry (writes rw)))]"

definition jsonOfEndorsement :: "Endorsement \<Rightarrow> json" where
  "jsonOfEndorsement e = JObj
     [(''endorserId'', JStr (endorserId e)),
      (''endorserOrgId'', JStr (endorserOrgId e)),
      (''signature'', JStr (signature e))]"

definition jsonOfTransactionEnvelope :: "TransactionEnvelope \<Rightarrow> json" where
  "jsonOfTransactionEnvelope tx = JObj
     [(''txId'', JStr (txId tx)),
      (''creatorId'', JStr (creatorId tx)),
      (''creatorOrgId'', JStr (creatorOrgId tx)),
      (''creatorPubKey'', JStr (creatorPubKey tx)),
      (''payload'', jsonOfPayload (payload tx)),
      (''rwSet'', jsonOfRWSet (rwSet tx)),
      (''result'', nullable JStr (result tx)),
      (''endorsements'', JArr (map jsonOfEndorsement (endorsements tx))),
      (''clientSignature'', JStr (clientSignature tx))]"

definition jsonOfBlockHeader :: "BlockHeader \<Rightarrow> json" where
  "jsonOfBlockHeader h = JObj
     [(''number'', JNum (number h)),
      (''previousHash'', JStr (previousHash h)),
      (''dataHash'', JStr (dataHash h))]"

definition jsonOfValidationCode :: "ValidationCode \<Rightarrow> json" where
  "jsonOfValidationCode c =
     (case c of
        VALID \<Rightarrow> JStr ''VALID''
      | ENDORSEMENT_POLICY_FAILURE \<Rightarrow> JStr ''ENDORSEMENT_POLICY_FAILURE''
      | MVCC_READ_CONFLICT \<Rightarrow> JStr ''MVCC_READ_CONFLICT''
      | BAD_PAYLOAD \<Rightarrow> JStr ''BAD_PAYLOAD''
      | MSP_VALIDATION_FAILED \<Rightarrow> JStr ''MSP_VALIDATION_FAILED'')"

definition jsonOfTxValidationInfo :: "TxValidationInfo \<Rightarrow> json" where
  "jsonOfTxValidationInfo i = JObj
     ([(''txId'', JStr (info_txId i)), (''code'', jsonOfValidationCode (info_code i))] @
      optionalMember ''message'' JStr (info_message i))"

definition jsonOfBlockMetadata :: "BlockMetadata \<Rightarrow> json" where
  "jsonOfBlockMetadata m = JObj
     ([(''timestamp'', JStr (timestamp m)),
       (''ordererId'', JStr (ordererId m)),
       (''ordererSignature'', JStr (ordererSignature m))] @
      optionalMember ''validationInfo''
        (\<lambda>is. JArr (map jsonOfTxValidationInfo is)) (validationInfo m))"

section \<open>Parameters\<close>

text \<open>
  The metadata object that \<^verbatim>\<open>storeChaincodeMetadata\<close> builds.
\<close>

record ChaincodeMetadata =
  meta_chaincodeId :: string
  meta_version :: string
  meta_endorsementPolicy :: EndorsementPolicy
  deployedAt :: string

definition jsonOfChaincodeMetadata :: "ChaincodeMetadata \<Rightarrow> json" where
  "jsonOfChaincodeMetadata m = JObj
     [(''chaincodeId'', JStr (meta_chaincodeId m)),
      (''version'', JStr (meta_version m)),
      (''endorsementPolicy'', jsonOfPolicy (meta_endorsementPolicy m)),
      (''deployedAt'', JStr (deployedAt m))]"

text \<open>
  What the program takes from its platform and this development does not define:
  \<^item> \<open>verify data signature publicKey\<close>: RSA-SHA256 verification (\<^verbatim>\<open>src/crypto\<close>,
    \<^verbatim>\<open>verify\<close>; it catches every exception and returns false);
  \<^item> \<open>hash data\<close>: the SHA-256 digest in hexadecimal (\<^verbatim>\<open>src/crypto\<close>, \<^verbatim>\<open>hash\<close>);
  \<^item> \<open>clock i\<close>: what \<^verbatim>\<open>new Date().toISOString()\<close> returns when it is read while the
    transaction of index \<open>i\<close> of a block is committed;
  \<^item> \<open>JSON_parse str\<close>: \<^verbatim>\<open>JSON.parse\<close> on a chaincode metadata text: \<open>Inl\<close> when it
    throws a \<^verbatim>\<open>SyntaxError\<close>, \<open>Inr v\<close> when it returns the value \<open>v\<close>, of whatever
    shape. (A number that is not an integer is no value of \<open>json\<close>; the committer reads
    no number from a metadata.)
\<close>

record env =
  verify :: "string \<Rightarrow> string \<Rightarrow> string \<Rightarrow> bool"
  hash :: "string \<Rightarrow> string"
  clock :: "nat \<Rightarrow> string"
  JSON_parse :: "string \<Rightarrow> error + json"

section \<open>Storage (\<^verbatim>\<open>src/storage/index.ts\<close>)\<close>

subsection \<open>World state\<close>

text \<open>
  The LevelDB of the world state holds two families of keys,
  \<^verbatim>\<open>state:<channel>:<key>\<close> and \<^verbatim>\<open>version:<channel>:<key>\<close>. The two prefixes
  differ in their first character, so no key belongs to both families, and the model
  keeps one map for each, indexed by the full LevelDB key. A version is written as
  \<^verbatim>\<open>JSON.stringify({blockNum, txNum})\<close> and read back with \<^verbatim>\<open>JSON.parse\<close>; the
  model stores the version itself. Such a text is neither empty nor
  \<^verbatim>\<open>'undefined'\<close>, so the guard of \<^verbatim>\<open>getVersion\<close> on these two texts never
  fires on what \<^verbatim>\<open>setVersion\<close> wrote.
\<close>

record WorldStateStore =
  channelId :: string
  state_db :: "string \<rightharpoonup> string"
  version_db :: "string \<rightharpoonup> Version"

definition stateKey :: "WorldStateStore \<Rightarrow> string \<Rightarrow> string" where
  "stateKey ws key = ''state:'' @ channelId ws @ '':'' @ key"

definition versionKey :: "WorldStateStore \<Rightarrow> string \<Rightarrow> string" where
  "versionKey ws key = ''version:'' @ channelId ws @ '':'' @ key"

definition getState :: "WorldStateStore \<Rightarrow> string \<Rightarrow> string option" where
  "getState ws key = state_db ws (stateKey ws key)"

definition setState :: "WorldStateStore \<Rightarrow> string \<Rightarrow> string \<Rightarrow> WorldStateStore" where
  "setState ws key v = ws\<lparr>state_db := (state_db ws)(stateKey ws key \<mapsto> v)\<rparr>"

definition deleteState :: "WorldStateStore \<Rightarrow> string \<Rightarrow> WorldStateStore" where
  "deleteState ws key = ws\<lparr>state_db := (state_db ws)(stateKey ws key := None)\<rparr>"

definition getVersion :: "WorldStateStore \<Rightarrow> string \<Rightarrow> Version option" where
  "getVersion ws key = version_db ws (versionKey ws key)"

definition setVersion :: "WorldStateStore \<Rightarrow> string \<Rightarrow> Version \<Rightarrow> WorldStateStore" where
  "setVersion ws key v = ws\<lparr>version_db := (version_db ws)(versionKey ws key \<mapsto> v)\<rparr>"

text \<open>The loop of \<^verbatim>\<open>applyRWSet\<close> over \<^verbatim>\<open>rwSet.writes\<close>, in order.\<close>

fun applyWrites :: "WorldStateStore \<Rightarrow> WriteEntry list \<Rightarrow> int \<Rightarrow> int \<Rightarrow> WorldStateStore" where
  "applyWrites ws [] blockNumber txNumber = ws"
| "applyWrites ws (write # rest) blockNumber txNumber =
     (case write_value write of
        None \<Rightarrow>
          applyWrites
            (setVersion (deleteState ws (write_key write)) (write_key write)
               \<lparr>blockNum = blockNumber, txNum = txNumber\<rparr>)
            rest blockNumber txNumber
      | Some v \<Rightarrow>
          applyWrites
            (setVersion (setState ws (write_key write) v) (write_key write)
               \<lparr>blockNum = blockNumber, txNum = txNumber\<rparr>)
            rest blockNumber txNumber)"

definition applyRWSet :: "WorldStateStore \<Rightarrow> RWSet \<Rightarrow> int \<Rightarrow> int \<Rightarrow> WorldStateStore" where
  "applyRWSet ws rw blockNumber txNumber = applyWrites ws (writes rw) blockNumber txNumber"

text \<open>
  \<^verbatim>\<open>validateReadSet\<close>: the three tests of the loop body, in the source's order; a
  \<^verbatim>\<open>return false\<close> leaves the loop.
\<close>

fun validateReadSet :: "WorldStateStore \<Rightarrow> ReadVersion list \<Rightarrow> bool" where
  "validateReadSet ws [] = True"
| "validateReadSet ws (read # rest) =
     (let currentVersion = getVersion ws (read_key read) in
      if read_version read = None \<and> currentVersion \<noteq> None then False
      else if read_version read \<noteq> None \<and> currentVersion = None then False
      else if read_version read \<noteq> None \<and> currentVersion \<noteq> None \<and>
              (blockNum (the (read_version read)) \<noteq> blockNum (the currentVersion) \<or>
               txNum (the (read_version read)) \<noteq> txNum (the currentVersion))
        then False
      else validateReadSet ws rest)"

subsection \<open>Ledger\<close>

text \<open>
  The ledger's LevelDB holds \<^verbatim>\<open>block:<n>\<close>, \<^verbatim>\<open>hash:<h>\<close> and \<^verbatim>\<open>meta:latest\<close>. A
  block is written as \<^verbatim>\<open>JSON.stringify(block)\<close> and read back with
  \<^verbatim>\<open>JSON.parse\<close>; the model stores the block itself.
\<close>

record LedgerStore =
  block_db :: "int \<rightharpoonup> Block"
  hash_db :: "string \<rightharpoonup> int"
  latest_db :: "int option"

fun mapE :: "('a \<Rightarrow> error + 'b) \<Rightarrow> 'a list \<Rightarrow> error + 'b list" where
  "mapE f [] = Inr []"
| "mapE f (x # xs) = bindE (f x) (\<lambda>y. bindE (mapE f xs) (\<lambda>ys. Inr (y # ys)))"

definition calculateBlockHash :: "env \<Rightarrow> Block \<Rightarrow> error + string" where
  "calculateBlockHash e block =
     bindE (canonicalStringify (jsonOfBlockHeader (header block))) (\<lambda>headerData.
     bindE (mapE (\<lambda>tx. canonicalStringify (jsonOfTransactionEnvelope tx)) (transactions block))
       (\<lambda>txStrings.
     bindE (canonicalStringify (jsonOfBlockMetadata (metadata block))) (\<lambda>metadataData.
     Inr (hash e (headerData @ concat txStrings @ metadataData)))))"

definition storeBlock :: "env \<Rightarrow> LedgerStore \<Rightarrow> Block \<Rightarrow> error + LedgerStore" where
  "storeBlock e ledger block =
     (let ledger1 = ledger\<lparr>block_db := (block_db ledger)(number (header block) \<mapsto> block)\<rparr> in
      bindE (calculateBlockHash e block) (\<lambda>blockHash.
      Inr (ledger1\<lparr>hash_db := (hash_db ledger1)(blockHash \<mapsto> number (header block)),
                     latest_db := Some (number (header block))\<rparr>)))"

definition getBlock :: "LedgerStore \<Rightarrow> int \<Rightarrow> Block option" where
  "getBlock ledger blockNumber = block_db ledger blockNumber"

definition getLatestBlockNumber :: "LedgerStore \<Rightarrow> int" where
  "getLatestBlockNumber ledger = (case latest_db ledger of None \<Rightarrow> - 1 | Some n \<Rightarrow> n)"

section \<open>Chaincode (\<^verbatim>\<open>src/chaincode/index.ts\<close>)\<close>

subsection \<open>Execution context\<close>

record ChaincodeExecutionContext =
  ctx_txId :: string
  clientId :: string
  clientOrgId :: string
  worldState :: WorldStateStore
  readSet :: "ReadVersion list"
  writeSet :: "WriteEntry list"

text \<open>
  The constructor: empty read and write sets.
\<close>

definition newContext :: "string \<Rightarrow> string \<Rightarrow> string \<Rightarrow> WorldStateStore \<Rightarrow> ChaincodeExecutionContext" where
  "newContext t cid corg ws =
     \<lparr>ctx_txId = t, clientId = cid, clientOrgId = corg, worldState = ws,
      readSet = [], writeSet = []\<rparr>"

text \<open>
  \<^verbatim>\<open>getState\<close> of the context: push the read with the current version, then return
  the current value of the world state. The result is the value and the context after
  the call.
\<close>

definition ctx_getState :: "ChaincodeExecutionContext \<Rightarrow> string \<Rightarrow> string option \<times> ChaincodeExecutionContext" where
  "ctx_getState ctx key =
     (let v = getVersion (worldState ctx) key;
          ctx1 = ctx\<lparr>readSet := readSet ctx @ [\<lparr>read_key = key, read_version = v\<rparr>]\<rparr>
      in (getState (worldState ctx1) key, ctx1))"

definition putState :: "ChaincodeExecutionContext \<Rightarrow> string \<Rightarrow> string \<Rightarrow> ChaincodeExecutionContext" where
  "putState ctx key v =
     ctx\<lparr>writeSet := writeSet ctx @ [\<lparr>write_key = key, write_value = Some v\<rparr>]\<rparr>"

definition delState :: "ChaincodeExecutionContext \<Rightarrow> string \<Rightarrow> ChaincodeExecutionContext" where
  "delState ctx key =
     ctx\<lparr>writeSet := writeSet ctx @ [\<lparr>write_key = key, write_value = None\<rparr>]\<rparr>"

definition getRWSet :: "ChaincodeExecutionContext \<Rightarrow> RWSet" where
  "getRWSet ctx = \<lparr>reads = readSet ctx, writes = writeSet ctx\<rparr>"

subsection \<open>Chaincode metadata store\<close>

text \<open>
  The metadata of a chaincode is kept in the state family of the world state, under
  the key \<^verbatim>\<open>CHAINCODE:<chaincodeId>\<close> (\<open>chaincodeKey\<close>), as a JSON text. It gets no version. The
  argument \<open>i\<close> is the index of the transaction being committed, for the clock.
\<close>

definition chaincodeKey :: "string \<Rightarrow> string" where
  "chaincodeKey ccId = ''CHAINCODE:'' @ ccId"

definition storeChaincodeMetadata ::
    "env \<Rightarrow> nat \<Rightarrow> WorldStateStore \<Rightarrow> string \<Rightarrow> string \<Rightarrow> EndorsementPolicy \<Rightarrow> WorldStateStore" where
  "storeChaincodeMetadata e i ws ccId ver policy =
     (let metadata = \<lparr>meta_chaincodeId = ccId, meta_version = ver,
                       meta_endorsementPolicy = policy, deployedAt = clock e i\<rparr>
      in setState ws (chaincodeKey ccId)
           (JSON_stringify (jsonOfChaincodeMetadata metadata) None))"

text \<open>
  \<^verbatim>\<open>return metadataStr ? JSON.parse(metadataStr) : null;\<close> The empty text is falsy.
  The result has the type \<^verbatim>\<open>any\<close>: it is whatever value the stored text parses to.
\<close>

definition getChaincodeMetadata :: "env \<Rightarrow> WorldStateStore \<Rightarrow> string \<Rightarrow> error + json" where
  "getChaincodeMetadata e ws ccId =
     (case getState ws (chaincodeKey ccId) of
        None \<Rightarrow> Inr JNull
      | Some metadataStr \<Rightarrow>
          if metadataStr = [] then Inr JNull else JSON_parse e metadataStr)"

section \<open>MSP (\<^verbatim>\<open>src/msp/index.ts\<close>)\<close>

record MSP =
  identityMap :: "string \<rightharpoonup> Identity"

definition getIdentity :: "MSP \<Rightarrow> string \<Rightarrow> Identity option" where
  "getIdentity msp ident = identityMap msp ident"

definition roleName :: "Role \<Rightarrow> string" where
  "roleName r =
     (case r of ADMIN \<Rightarrow> ''ADMIN'' | CLIENT \<Rightarrow> ''CLIENT'' | PEER \<Rightarrow> ''PEER''
              | ORDERER \<Rightarrow> ''ORDERER'')"

record SignatureCheck =
  valid :: bool
  check_identity :: "Identity option"
  check_error :: "string option"

text \<open>
  \<^verbatim>\<open>verifySignature(data, signature, signerId, expectedRole?)\<close>: every failure is a
  result with \<^verbatim>\<open>valid: false\<close> and an error text, never an exception.
\<close>

definition verifySignature ::
    "env \<Rightarrow> MSP \<Rightarrow> string \<Rightarrow> string \<Rightarrow> string \<Rightarrow> Role option \<Rightarrow> SignatureCheck" where
  "verifySignature e msp data sig signerId expectedRole =
     (case getIdentity msp signerId of
        None \<Rightarrow>
          \<lparr>valid = False, check_identity = None,
           check_error = Some (''Identity '' @ signerId @ '' not found'')\<rparr>
      | Some ident \<Rightarrow>
          if expectedRole \<noteq> None \<and> role ident \<noteq> the expectedRole then
            \<lparr>valid = False, check_identity = None,
             check_error = Some (''Identity '' @ signerId @ '' has role '' @ roleName (role ident) @
                                 '', expected '' @ roleName (the expectedRole))\<rparr>
          else if \<not> verify e data sig (publicKey ident) then
            \<lparr>valid = False, check_identity = None,
             check_error = Some (''Invalid signature for '' @ signerId)\<rparr>
          else \<lparr>valid = True, check_identity = Some ident, check_error = None\<rparr>)"

section \<open>Committer (\<^verbatim>\<open>src/peer/index.ts\<close>)\<close>

subsection \<open>Values of type \<^verbatim>\<open>any\<close>\<close>

text \<open>
  The endorsement policy of an invocation comes out of \<^verbatim>\<open>JSON.parse\<close>, so at run
  time it is any JSON value, or \<^verbatim>\<open>undefined\<close> (\<open>None\<close>). The committer uses such
  values in four ways.

  \<^verbatim>\<open>!v\<close>: null, false, 0 and the empty string are falsy.
\<close>

definition falsy :: "json \<Rightarrow> bool" where
  "falsy v = (v = JNull \<or> v = JBool False \<or> v = JNum 0 \<or> v = JStr [])"

text \<open>
  \<^verbatim>\<open>v.name\<close>, for the three names the committer reads (\<^verbatim>\<open>endorsementPolicy\<close>,
  \<^verbatim>\<open>type\<close>, \<^verbatim>\<open>orgs\<close>; none is a property of a built-in prototype): reading a
  property of \<^verbatim>\<open>undefined\<close> or of null throws a \<^verbatim>\<open>TypeError\<close>; an object gives its
  own property, or \<^verbatim>\<open>undefined\<close>; every other value gives \<^verbatim>\<open>undefined\<close>.
\<close>

definition getProperty :: "json option \<Rightarrow> string \<Rightarrow> error + json option" where
  "getProperty v name =
     (case v of
        None \<Rightarrow> Inl (TypeError (''Cannot read properties of undefined (reading '' @ name @ '')''))
      | Some JNull \<Rightarrow> Inl (TypeError (''Cannot read properties of null (reading '' @ name @ '')''))
      | Some (JObj kvs) \<Rightarrow> Inr (map_of kvs name)
      | Some other \<Rightarrow> Inr None)"

text \<open>
  \<^verbatim>\<open>policy.orgs.some(f)\<close>, \<^verbatim>\<open>policy.orgs.every(f)\<close> and, after
  \<^verbatim>\<open>policy.orgs.length\<close>, \<^verbatim>\<open>policy.orgs.filter(f)\<close>: only an array has these
  methods. On \<^verbatim>\<open>undefined\<close> and null the property read throws; on any other value
  the method is \<^verbatim>\<open>undefined\<close> and the call throws. \<open>policyOrgs\<close> gives the elements
  of the array.
\<close>

definition policyOrgs :: "json option \<Rightarrow> error + json list" where
  "policyOrgs policy =
     bindE (getProperty policy ''orgs'') (\<lambda>os.
       case os of
         Some (JArr xs) \<Rightarrow> Inr xs
       | Some JNull \<Rightarrow> Inl (TypeError ''Cannot read properties of null'')
       | None \<Rightarrow> Inl (TypeError ''Cannot read properties of undefined'')
       | Some other \<Rightarrow> Inl (TypeError ''policy.orgs is not an array''))"

text \<open>
  \<^verbatim>\<open>endorsingOrgs.includes(org)\<close>, where \<^verbatim>\<open>endorsingOrgs\<close> is an array of strings: a
  value that is not a string equals none of them.
\<close>

definition array_includes :: "string list \<Rightarrow> json \<Rightarrow> bool" where
  "array_includes endorsingOrgs org = (case org of JStr s \<Rightarrow> s \<in> set endorsingOrgs | _ \<Rightarrow> False)"

subsection \<open>Validation\<close>

text \<open>
  \<^verbatim>\<open>checkEndorsementPolicy(policy, endorsingOrgs)\<close>. The \<^verbatim>\<open>switch\<close> compares
  \<^verbatim>\<open>policy.type\<close> with the three string literals by strict equality; \<^verbatim>\<open>some\<close>,
  \<^verbatim>\<open>every\<close> and \<^verbatim>\<open>filter\<close> run over \<^verbatim>\<open>policy.orgs\<close>.
\<close>

definition checkEndorsementPolicy :: "json option \<Rightarrow> string list \<Rightarrow> error + Validation" where
  "checkEndorsementPolicy policy endorsingOrgs =
     bindE (getProperty policy ''type'') (\<lambda>policyType.
       if policyType = Some (JStr ''ANY'') then
         bindE (policyOrgs policy) (\<lambda>os.
           if list_ex (\<lambda>org. array_includes endorsingOrgs org) os
           then Inr \<lparr>code = VALID, message = None\<rparr>
           else Inr \<lparr>code = ENDORSEMENT_POLICY_FAILURE,
                     message = Some ''ANY policy not satisfied''\<rparr>)
       else if policyType = Some (JStr ''ALL'') then
         bindE (policyOrgs policy) (\<lambda>os.
           if list_all (\<lambda>org. array_includes endorsingOrgs org) os
           then Inr \<lparr>code = VALID, message = None\<rparr>
           else Inr \<lparr>code = ENDORSEMENT_POLICY_FAILURE,
                     message = Some ''ALL policy not satisfied''\<rparr>)
       else if policyType = Some (JStr ''MAJORITY'') then
         bindE (policyOrgs policy) (\<lambda>os.
           let requiredCount = length os div 2 + 1;
               actualCount = length (filter (\<lambda>org. array_includes endorsingOrgs org) os)
           in if actualCount \<ge> requiredCount
              then Inr \<lparr>code = VALID, message = None\<rparr>
              else Inr \<lparr>code = ENDORSEMENT_POLICY_FAILURE,
                        message = Some ''MAJORITY policy not satisfied''\<rparr>)
       else Inr \<lparr>code = BAD_PAYLOAD, message = Some ''Unknown endorsement policy type''\<rparr>)"

text \<open>
  The object that every endorsement signs:
  \<^verbatim>\<open>{ proposal: { txId, payload }, rwSet, result }\<close>.
\<close>

definition endorsementObject :: "TransactionEnvelope \<Rightarrow> json" where
  "endorsementObject tx = JObj
     [(''proposal'', JObj [(''txId'', JStr (txId tx)), (''payload'', jsonOfPayload (payload tx))]),
      (''rwSet'', jsonOfRWSet (rwSet tx)),
      (''result'', nullable JStr (result tx))]"

text \<open>
  \<^verbatim>\<open>Set.prototype.add\<close> on a set kept as the list of its elements in insertion order,
  which is what \<^verbatim>\<open>Array.from\<close> returns.
\<close>

definition setAdd :: "string list \<Rightarrow> string \<Rightarrow> string list" where
  "setAdd xs x = (if x \<in> set xs then xs else xs @ [x])"

datatype EndorsementLoop = Returned Validation | Completed "string list"

text \<open>
  The loop of \<^verbatim>\<open>validateEndorsements\<close> over \<^verbatim>\<open>tx.endorsements\<close>, with the set
  \<^verbatim>\<open>endorsingOrgs\<close> as accumulator. An endorsement that does not verify returns from
  the function.
\<close>

fun verifyEndorsements ::
    "env \<Rightarrow> MSP \<Rightarrow> TransactionEnvelope \<Rightarrow> Endorsement list \<Rightarrow> string list \<Rightarrow> error + EndorsementLoop" where
  "verifyEndorsements e msp tx [] endorsingOrgs = Inr (Completed endorsingOrgs)"
| "verifyEndorsements e msp tx (endorsement # rest) endorsingOrgs =
     bindE (canonicalStringify (endorsementObject tx)) (\<lambda>endorsementData.
       let signatureValid =
             verifySignature e msp endorsementData (signature endorsement)
               (endorserId endorsement) (Some PEER)
       in if \<not> valid signatureValid then
            Inr (Returned \<lparr>code = ENDORSEMENT_POLICY_FAILURE,
                           message = check_error signatureValid\<rparr>)
          else verifyEndorsements e msp tx rest
                 (setAdd endorsingOrgs (endorserOrgId endorsement)))"

text \<open>
  \<^verbatim>\<open>tx.payload.endorsementPolicy || { type: 'ANY', orgs: [tx.creatorOrgId] }\<close>
\<close>

definition defaultPolicy :: "TransactionEnvelope \<Rightarrow> EndorsementPolicy" where
  "defaultPolicy tx =
     (case endorsementPolicy (payload tx) of
        Some p \<Rightarrow> p
      | None \<Rightarrow> \<lparr>policy_type = ''ANY'', orgs = [creatorOrgId tx]\<rparr>)"

text \<open>
  The rest of \<^verbatim>\<open>validateEndorsements\<close> once the policy is known: the loop, then the
  evaluation of the policy over \<^verbatim>\<open>Array.from(endorsingOrgs)\<close>.
\<close>

definition checkEndorsements ::
    "env \<Rightarrow> MSP \<Rightarrow> TransactionEnvelope \<Rightarrow> json option \<Rightarrow> error + Validation" where
  "checkEndorsements e msp tx policy =
     bindE (verifyEndorsements e msp tx (endorsements tx) []) (\<lambda>r.
       case r of
         Returned v \<Rightarrow> Inr v
       | Completed endorsingOrgs \<Rightarrow> checkEndorsementPolicy policy endorsingOrgs)"

text \<open>
  \<^verbatim>\<open>validateEndorsements(tx)\<close>: the policy of a deployment is the payload's, or
  \<^verbatim>\<open>ANY\<close> of the creator's organization, a typed value that the function sees as
  the object \<open>jsonOfPolicy\<close> gives; the policy of an invocation is the property
  \<^verbatim>\<open>endorsementPolicy\<close> of the chaincode metadata, \<^verbatim>\<open>BAD_PAYLOAD\<close> when the metadata
  is falsy.
\<close>

definition validateEndorsements ::
    "env \<Rightarrow> MSP \<Rightarrow> WorldStateStore \<Rightarrow> TransactionEnvelope \<Rightarrow> error + Validation" where
  "validateEndorsements e msp ws tx =
     (if payload_type (payload tx) = DEPLOY_CHAINCODE then
        checkEndorsements e msp tx (Some (jsonOfPolicy (defaultPolicy tx)))
      else
        bindE (getChaincodeMetadata e ws (chaincodeId (payload tx))) (\<lambda>metadata.
          if falsy metadata then
            Inr \<lparr>code = BAD_PAYLOAD, message = Some ''Chaincode not found''\<rparr>
          else
            bindE (getProperty (Some metadata) ''endorsementPolicy'') (\<lambda>policy.
              checkEndorsements e msp tx policy)))"

text \<open>
  The object that the client signs: the envelope without \<^verbatim>\<open>clientSignature\<close>.
\<close>

definition signedEnvelopeObject :: "TransactionEnvelope \<Rightarrow> json" where
  "signedEnvelopeObject tx = JObj
     [(''txId'', JStr (txId tx)),
      (''creatorId'', JStr (creatorId tx)),
      (''creatorOrgId'', JStr (creatorOrgId tx)),
      (''creatorPubKey'', JStr (creatorPubKey tx)),
      (''payload'', jsonOfPayload (payload tx)),
      (''rwSet'', jsonOfRWSet (rwSet tx)),
      (''result'', nullable JStr (result tx)),
      (''endorsements'', JArr (map jsonOfEndorsement (endorsements tx)))]"

text \<open>
  \<^verbatim>\<open>validateTransaction(tx, blockNumber, txNumber)\<close>; the source does not use its
  last two arguments.
\<close>

definition validateTransaction ::
    "env \<Rightarrow> MSP \<Rightarrow> WorldStateStore \<Rightarrow> TransactionEnvelope \<Rightarrow> int \<Rightarrow> int \<Rightarrow> error + Validation" where
  "validateTransaction e msp ws tx blockNumber txNumber =
     bindE (canonicalStringify (signedEnvelopeObject tx)) (\<lambda>txData.
       let signatureValid =
             verifySignature e msp txData (clientSignature tx) (creatorId tx) (Some CLIENT)
       in if \<not> valid signatureValid then
            Inr \<lparr>code = MSP_VALIDATION_FAILED, message = check_error signatureValid\<rparr>
          else
            bindE (validateEndorsements e msp ws tx) (\<lambda>endorsementValidation.
              if code endorsementValidation \<noteq> VALID then Inr endorsementValidation
              else
                let mvccValid = validateReadSet ws (reads (rwSet tx))
                in if \<not> mvccValid then
                     Inr \<lparr>code = MVCC_READ_CONFLICT,
                          message = Some ''Read set validation failed''\<rparr>
                   else Inr \<lparr>code = VALID, message = None\<rparr>))"

text \<open>
  The body of the loop of \<^verbatim>\<open>commitBlock\<close> after validation: what a transaction with
  the code \<^verbatim>\<open>VALID\<close> does to the world state.
\<close>

definition applyValidTransaction ::
    "env \<Rightarrow> WorldStateStore \<Rightarrow> TransactionEnvelope \<Rightarrow> int \<Rightarrow> nat \<Rightarrow> WorldStateStore" where
  "applyValidTransaction e ws tx blockNumber i =
     (let ws1 = applyRWSet ws (rwSet tx) blockNumber (int i)
      in if payload_type (payload tx) = DEPLOY_CHAINCODE
         then storeChaincodeMetadata e i ws1 (chaincodeId (payload tx)) ''1.0'' (defaultPolicy tx)
         else ws1)"

text \<open>
  The loop of \<^verbatim>\<open>commitBlock\<close>, from the index \<open>i\<close> on, over the transactions that
  remain; the state of the loop is the array \<^verbatim>\<open>validationInfo\<close> and the world
  state. \<^verbatim>\<open>block.transactions\<close> is a list of envelopes: the test \<^verbatim>\<open>if (!tx) continue\<close>
  never fires on a value of this type.
\<close>

fun commitLoop ::
    "env \<Rightarrow> MSP \<Rightarrow> int \<Rightarrow> TransactionEnvelope list \<Rightarrow> nat \<Rightarrow>
     TxValidationInfo list \<times> WorldStateStore \<Rightarrow>
     error + TxValidationInfo list \<times> WorldStateStore" where
  "commitLoop e msp blockNumber [] i st = Inr st"
| "commitLoop e msp blockNumber (tx # rest) i (info, ws) =
     bindE (validateTransaction e msp ws tx blockNumber (int i)) (\<lambda>validation.
       let info1 = info @ [\<lparr>info_txId = txId tx, info_code = code validation,
                             info_message = message validation\<rparr>];
           ws1 = (if code validation = VALID
                  then applyValidTransaction e ws tx blockNumber i else ws)
       in commitLoop e msp blockNumber rest (Suc i) (info1, ws1))"

record Committer =
  ledgerStore :: LedgerStore
  worldStateStore :: WorldStateStore

text \<open>
  \<^verbatim>\<open>commitBlock(block)\<close>: the loop, then the validation info is written into the
  block's metadata and the block is stored. The result is the block as stored and the
  committer's stores.
\<close>

definition commitBlock :: "env \<Rightarrow> MSP \<Rightarrow> Committer \<Rightarrow> Block \<Rightarrow> error + Block \<times> Committer" where
  "commitBlock e msp c block =
     bindE (commitLoop e msp (number (header block)) (transactions block) 0
              ([], worldStateStore c)) (\<lambda>(info, ws).
       let block1 = block\<lparr>metadata := (metadata block)\<lparr>validationInfo := Some info\<rparr>\<rparr>
       in bindE (storeBlock e (ledgerStore c) block1) (\<lambda>ledger.
            Inr (block1, \<lparr>ledgerStore = ledger, worldStateStore = ws\<rparr>)))"

section \<open>Solo consensus (\<^verbatim>\<open>src/consensus/index.ts\<close>)\<close>

text \<open>
  \<open>blockTimer\<close> tells whether the timer is armed. \<^verbatim>\<open>createBlock\<close> runs when the
  timer fires; its argument is the clock reading for the block's timestamp and its
  result is the block handed to \<^verbatim>\<open>emitBlockCommitted\<close>, if any, and the state after.
\<close>

record SoloConsensus =
  nodeId :: string
  blockNumber :: int
  pendingTxs :: "TransactionEnvelope list"
  blockTimer :: bool

definition newSoloConsensus :: "string \<Rightarrow> SoloConsensus" where
  "newSoloConsensus n = \<lparr>nodeId = n, blockNumber = 0, pendingTxs = [], blockTimer = False\<rparr>"

definition submitTx :: "SoloConsensus \<Rightarrow> TransactionEnvelope \<Rightarrow> SoloConsensus" where
  "submitTx s tx =
     (let s1 = s\<lparr>pendingTxs := pendingTxs s @ [tx]\<rparr>
      in if \<not> blockTimer s1 \<and> length (pendingTxs s1) > 0 then s1\<lparr>blockTimer := True\<rparr> else s1)"

definition createBlock :: "string \<Rightarrow> SoloConsensus \<Rightarrow> Block option \<times> SoloConsensus" where
  "createBlock nowISO s =
     (let s1 = (if blockTimer s then s\<lparr>blockTimer := False\<rparr> else s)
      in if length (pendingTxs s1) = 0 then (None, s1)
         else
           let block =
                 \<lparr>header = \<lparr>number = blockNumber s1, previousHash = ''0'',
                             dataHash = joinWith ''|'' (map txId (pendingTxs s1))\<rparr>,
                  transactions = pendingTxs s1,
                  metadata = \<lparr>timestamp = nowISO, ordererId = nodeId s1,
                               ordererSignature = [], validationInfo = None\<rparr>\<rparr>
           in (Some block, s1\<lparr>blockNumber := blockNumber s1 + 1, pendingTxs := []\<rparr>))"

section \<open>Notions used in the statements\<close>

text \<open>One iteration of the loop of \<^verbatim>\<open>applyRWSet\<close>.\<close>

definition applyWrite :: "WorldStateStore \<Rightarrow> WriteEntry \<Rightarrow> int \<Rightarrow> int \<Rightarrow> WorldStateStore" where
  "applyWrite ws write bn tn =
     (case write_value write of
        None \<Rightarrow> setVersion (deleteState ws (write_key write)) (write_key write)
                  \<lparr>blockNum = bn, txNum = tn\<rparr>
      | Some v \<Rightarrow> setVersion (setState ws (write_key write) v) (write_key write)
                  \<lparr>blockNum = bn, txNum = tn\<rparr>)"

text \<open>
  The canonical strings of the two signed objects. The sorted keys of each object are
  fixed, so the replacer array is known (\<open>canonicalStringify_endorsementObject\<close> and
  \<open>canonicalStringify_signedEnvelopeObject\<close> below).
\<close>

definition endorsementData :: "TransactionEnvelope \<Rightarrow> string" where
  "endorsementData tx =
     JSON_stringify (endorsementObject tx) (Some [''proposal'', ''result'', ''rwSet''])"

definition envelopeData :: "TransactionEnvelope \<Rightarrow> string" where
  "envelopeData tx =
     JSON_stringify (signedEnvelopeObject tx)
       (Some [''creatorId'', ''creatorOrgId'', ''creatorPubKey'', ''endorsements'', ''payload'',
              ''result'', ''rwSet'', ''txId''])"

text \<open>The two signature checks of the committer.\<close>

definition endorsementVerifies ::
    "env \<Rightarrow> MSP \<Rightarrow> TransactionEnvelope \<Rightarrow> Endorsement \<Rightarrow> SignatureCheck" where
  "endorsementVerifies e msp tx en =
     verifySignature e msp (endorsementData tx) (signature en) (endorserId en) (Some PEER)"

definition clientSignatureCheck :: "env \<Rightarrow> MSP \<Rightarrow> TransactionEnvelope \<Rightarrow> SignatureCheck" where
  "clientSignatureCheck e msp tx =
     verifySignature e msp (envelopeData tx) (clientSignature tx) (creatorId tx) (Some CLIENT)"

text \<open>
  The policy that \<^verbatim>\<open>validateEndorsements\<close> evaluates: \<open>Inr None\<close> when an
  invocation names a chaincode whose metadata is falsy (not found), \<open>Inr (Some policy)\<close>
  otherwise, where \<open>policy\<close> is the value handed to \<^verbatim>\<open>checkEndorsementPolicy\<close>
  (\<^verbatim>\<open>undefined\<close> when the metadata has no such property), and \<open>Inl\<close> when
  \<^verbatim>\<open>JSON.parse\<close> throws on the metadata text.
\<close>

definition resolvePolicy ::
    "env \<Rightarrow> WorldStateStore \<Rightarrow> TransactionEnvelope \<Rightarrow> error + json option option" where
  "resolvePolicy e ws tx =
     (if payload_type (payload tx) = DEPLOY_CHAINCODE
      then Inr (Some (Some (jsonOfPolicy (defaultPolicy tx))))
      else bindE (getChaincodeMetadata e ws (chaincodeId (payload tx))) (\<lambda>metadata.
             if falsy metadata then Inr None
             else bindE (getProperty (Some metadata) ''endorsementPolicy'')
                    (\<lambda>policy. Inr (Some policy))))"

text \<open>
  The result of the endorsement loop and of the evaluation of the policy \<open>policy\<close>, as
  a function of the endorsements: the failure of the first endorsement that does not
  verify, or else the policy over the distinct \<^verbatim>\<open>endorserOrgId\<close> of the endorsements.
\<close>

definition endorsementVerdict ::
    "env \<Rightarrow> MSP \<Rightarrow> TransactionEnvelope \<Rightarrow> json option \<Rightarrow> error + Validation" where
  "endorsementVerdict e msp tx policy =
     (case find (\<lambda>en. \<not> valid (endorsementVerifies e msp tx en)) (endorsements tx) of
        Some bad \<Rightarrow> Inr \<lparr>code = ENDORSEMENT_POLICY_FAILURE,
                          message = check_error (endorsementVerifies e msp tx bad)\<rparr>
      | None \<Rightarrow> checkEndorsementPolicy policy (remdups (map endorserOrgId (endorsements tx))))"

text \<open>The code of a verdict, when there is one: \<open>None\<close> when the call threw.\<close>

definition verdictCode :: "error + Validation \<Rightarrow> ValidationCode option" where
  "verdictCode r = (case r of Inl err \<Rightarrow> None | Inr v \<Rightarrow> Some (code v))"

text \<open>The entry that \<^verbatim>\<open>commitBlock\<close> pushes for a transaction and its validation.\<close>

definition validationEntry :: "TransactionEnvelope \<Rightarrow> Validation \<Rightarrow> TxValidationInfo" where
  "validationEntry tx v = \<lparr>info_txId = txId tx, info_code = code v, info_message = message v\<rparr>"

text \<open>
  The world state that block order prescribes: starting at the index \<open>i\<close>, each
  transaction of the list whose code is \<^verbatim>\<open>VALID\<close> is applied with its index as
  \<open>txNum\<close>; the others are skipped.
\<close>

fun applyValid ::
    "env \<Rightarrow> int \<Rightarrow> nat \<Rightarrow> (TransactionEnvelope \<times> ValidationCode) list \<Rightarrow>
     WorldStateStore \<Rightarrow> WorldStateStore" where
  "applyValid e bn i [] ws = ws"
| "applyValid e bn i ((tx, c) # rest) ws =
     applyValid e bn (Suc i) rest
       (if c = VALID then applyValidTransaction e ws tx bn i else ws)"

text \<open>
  \<open>worldStateBefore e bn txs codes k ws\<close>: the world state \<open>ws\<close> after the transactions
  of index below \<open>k\<close>, given the codes of the block's transactions.
\<close>

definition worldStateBefore ::
    "env \<Rightarrow> int \<Rightarrow> TransactionEnvelope list \<Rightarrow> ValidationCode list \<Rightarrow> nat \<Rightarrow>
     WorldStateStore \<Rightarrow> WorldStateStore" where
  "worldStateBefore e bn txs codes k ws = applyValid e bn 0 (zip (take k txs) (take k codes)) ws"

section \<open>Concrete inputs\<close>

text \<open>
  Two transaction-like objects that differ only in \<^verbatim>\<open>payload.args\<close>.
\<close>

definition mintAlice :: json where
  "mintAlice = JObj
     [(''txId'', JStr ''tx1''),
      (''payload'', JObj
         [(''type'', JStr ''INVOKE_CHAINCODE''),
          (''chaincodeId'', JStr ''basic''),
          (''functionName'', JStr ''mint''),
          (''args'', JArr [JStr ''500'', JStr ''Alice''])])]"

definition mintMallory :: json where
  "mintMallory = JObj
     [(''txId'', JStr ''tx1''),
      (''payload'', JObj
         [(''type'', JStr ''INVOKE_CHAINCODE''),
          (''chaincodeId'', JStr ''basic''),
          (''functionName'', JStr ''mint''),
          (''args'', JArr [JStr ''999999'', JStr ''Mallory''])])]"

text \<open>Stores and read sets used below as concrete inputs.\<close>

definition emptyStore :: WorldStateStore where
  "emptyStore = \<lparr>channelId = ''default'', state_db = Map.empty, version_db = Map.empty\<rparr>"

definition aliceStore :: WorldStateStore where
  "aliceStore = applyRWSet emptyStore
     \<lparr>reads = [], writes = [\<lparr>write_key = ''balance:Alice'', write_value = Some ''400''\<rparr>]\<rparr> 2 0"

definition readAlice :: ReadVersion where
  "readAlice = \<lparr>read_key = ''balance:Alice'', read_version = Some \<lparr>blockNum = 2, txNum = 0\<rparr>\<rparr>"

definition readAliceStale :: ReadVersion where
  "readAliceStale = \<lparr>read_key = ''balance:Alice'', read_version = Some \<lparr>blockNum = 1, txNum = 0\<rparr>\<rparr>"

definition readBob :: ReadVersion where
  "readBob = \<lparr>read_key = ''balance:Bob'', read_version = None\<rparr>"

definition putThenDelete :: RWSet where
  "putThenDelete =
     \<lparr>reads = [],
      writes = [\<lparr>write_key = ''balance:Bob'', write_value = Some ''100''\<rparr>,
                \<lparr>write_key = ''balance:Alice'', write_value = None\<rparr>]\<rparr>"

text \<open>
  An instance of the parameters and a small network. A signature verifies when it is
  the text \<^verbatim>\<open>signed-with:\<close> followed by the public key; the clock stands still;
  \<^verbatim>\<open>JSON.parse\<close> is cut down to the two texts it meets below, the metadata text of
  the chaincode \<^verbatim>\<open>basic\<close> and the text of the empty object, and throws on every other
  text. The network has a client and a peer of \<^verbatim>\<open>Org1\<close> and a peer of \<^verbatim>\<open>Org2\<close>.
\<close>

definition basicPolicy :: EndorsementPolicy where
  "basicPolicy = \<lparr>policy_type = ''ANY'', orgs = [''Org1'']\<rparr>"

definition basicMetadata :: ChaincodeMetadata where
  "basicMetadata =
     \<lparr>meta_chaincodeId = ''basic'', meta_version = ''1.0'',
      meta_endorsementPolicy = basicPolicy, deployedAt = ''2024-01-01T00:00:00.000Z''\<rparr>"

definition basicMetadataText :: string where
  "basicMetadataText = JSON_stringify (jsonOfChaincodeMetadata basicMetadata) None"

definition toyEnv :: env where
  "toyEnv =
     \<lparr>verify = (\<lambda>data sig pk. sig = ''signed-with:'' @ pk),
      hash = (\<lambda>data. ''sha256('' @ data @ '')''),
      clock = (\<lambda>i. ''2024-01-01T00:00:00.000Z''),
      JSON_parse = (\<lambda>str. if str = basicMetadataText
                              then Inr (jsonOfChaincodeMetadata basicMetadata)
                            else if str = ''{}'' then Inr (JObj [])
                            else Inl (SyntaxError ''Unexpected token''))\<rparr>"

definition toyMSP :: MSP where
  "toyMSP = \<lparr>identityMap =
     [''Org1Client'' \<mapsto> \<lparr>identity_id = ''Org1Client'', orgId = ''Org1'', role = CLIENT,
                           publicKey = ''pk-Org1Client''\<rparr>,
      ''Org1Peer1'' \<mapsto> \<lparr>identity_id = ''Org1Peer1'', orgId = ''Org1'', role = PEER,
                           publicKey = ''pk-Org1Peer1''\<rparr>,
      ''Org2Peer1'' \<mapsto> \<lparr>identity_id = ''Org2Peer1'', orgId = ''Org2'', role = PEER,
                           publicKey = ''pk-Org2Peer1''\<rparr>]\<rparr>"

definition endorsementOrg1 :: Endorsement where
  "endorsementOrg1 =
     \<lparr>endorserId = ''Org1Peer1'', endorserOrgId = ''Org1'',
      signature = ''signed-with:pk-Org1Peer1''\<rparr>"

definition endorsementForged :: Endorsement where
  "endorsementForged =
     \<lparr>endorserId = ''Org2Peer1'', endorserOrgId = ''Org2'', signature = ''forged''\<rparr>"

text \<open>The deployment of \<^verbatim>\<open>basic\<close> with the policy \<^verbatim>\<open>ANY\<close> of \<^verbatim>\<open>Org1\<close>, as a function of its endorsements.\<close>

definition deployBasic :: "Endorsement list \<Rightarrow> TransactionEnvelope" where
  "deployBasic ens =
     \<lparr>txId = ''tx-deploy'', creatorId = ''Org1Client'', creatorOrgId = ''Org1'',
      creatorPubKey = ''pk-Org1Client'',
      payload = \<lparr>payload_type = DEPLOY_CHAINCODE, chaincodeId = ''basic'',
                 functionName = None, args = Some [], endorsementPolicy = Some basicPolicy\<rparr>,
      rwSet = \<lparr>reads = [], writes = [\<lparr>write_key = ''totalSupply'', write_value = Some ''0''\<rparr>]\<rparr>,
      result = Some ''Initialized with zero supply'',
      endorsements = ens,
      clientSignature = ''signed-with:pk-Org1Client''\<rparr>"

text \<open>
  A deployment whose policy is \<^verbatim>\<open>ALL\<close> of \<^verbatim>\<open>Org1\<close> and \<^verbatim>\<open>Org2\<close>, endorsed by
  \<^verbatim>\<open>Org1\<close> only; an invocation of a chaincode that was never deployed, with an
  endorsement that does not verify.
\<close>

definition allPolicy :: EndorsementPolicy where
  "allPolicy = \<lparr>policy_type = ''ALL'', orgs = [''Org1'', ''Org2'']\<rparr>"

definition deployAll :: TransactionEnvelope where
  "deployAll =
     (deployBasic [endorsementOrg1])
       \<lparr>payload := (payload (deployBasic [endorsementOrg1]))\<lparr>endorsementPolicy := Some allPolicy\<rparr>\<rparr>"

definition invokeUndeployed :: TransactionEnvelope where
  "invokeUndeployed =
     \<lparr>txId = ''tx-undeployed'', creatorId = ''Org1Client'', creatorOrgId = ''Org1'',
      creatorPubKey = ''pk-Org1Client'',
      payload = \<lparr>payload_type = INVOKE_CHAINCODE, chaincodeId = ''basic'',
                 functionName = Some ''totalSupply'', args = Some [],
                 endorsementPolicy = None\<rparr>,
      rwSet = \<lparr>reads = [], writes = []\<rparr>,
      result = None,
      endorsements = [endorsementForged],
      clientSignature = ''signed-with:pk-Org1Client''\<rparr>"

text \<open>
  The world state after the deployment and after a block 2 that set the balances of
  Alice and Bob. Block 3 holds three transfers of 100 from Alice to Bob that were all
  simulated on that state: the second conflicts with the first, the third carries a
  forged client signature.
\<close>

definition deployedStore :: WorldStateStore where
  "deployedStore = applyValidTransaction toyEnv emptyStore (deployBasic [endorsementOrg1]) 0 0"

definition fundedStore :: WorldStateStore where
  "fundedStore = applyRWSet deployedStore
     \<lparr>reads = [],
      writes = [\<lparr>write_key = ''balance:Alice'', write_value = Some ''400''\<rparr>,
                \<lparr>write_key = ''balance:Bob'', write_value = Some ''100''\<rparr>]\<rparr> 2 0"

definition transferRWSet :: RWSet where
  "transferRWSet =
     \<lparr>reads = [\<lparr>read_key = ''balance:Alice'', read_version = Some \<lparr>blockNum = 2, txNum = 0\<rparr>\<rparr>,
               \<lparr>read_key = ''balance:Bob'', read_version = Some \<lparr>blockNum = 2, txNum = 0\<rparr>\<rparr>],
      writes = [\<lparr>write_key = ''balance:Alice'', write_value = Some ''300''\<rparr>,
                \<lparr>write_key = ''balance:Bob'', write_value = Some ''200''\<rparr>]\<rparr>"

definition transfer :: "string \<Rightarrow> string \<Rightarrow> TransactionEnvelope" where
  "transfer tid sig =
     \<lparr>txId = tid, creatorId = ''Org1Client'', creatorOrgId = ''Org1'',
      creatorPubKey = ''pk-Org1Client'',
      payload = \<lparr>payload_type = INVOKE_CHAINCODE, chaincodeId = ''basic'',
                 functionName = Some ''transfer'', args = Some [''Alice'', ''Bob'', ''100''],
                 endorsementPolicy = None\<rparr>,
      rwSet = transferRWSet,
      result = Some ''Transferred 100 tokens from Alice to Bob'',
      endorsements = [endorsementOrg1],
      clientSignature = sig\<rparr>"

definition block3 :: Block where
  "block3 =
     \<lparr>header = \<lparr>number = 3, previousHash = ''0'', dataHash = ''tx-a|tx-b|tx-c''\<rparr>,
      transactions = [transfer ''tx-a'' ''signed-with:pk-Org1Client'',
                      transfer ''tx-b'' ''signed-with:pk-Org1Client'',
                      transfer ''tx-c'' ''forged''],
      metadata = \<lparr>timestamp = ''2024-01-01T00:00:02.000Z'', ordererId = ''orderer1'',
                   ordererSignature = ''signed-with:pk-orderer1'', validationInfo = None\<rparr>\<rparr>"

definition committer0 :: Committer where
  "committer0 =
     \<lparr>ledgerStore = \<lparr>block_db = Map.empty, hash_db = Map.empty, latest_db = None\<rparr>,
      worldStateStore = fundedStore\<rparr>"

definition block3Info :: "TxValidationInfo list" where
  "block3Info =
     [\<lparr>info_txId = ''tx-a'', info_code = VALID, info_message = None\<rparr>,
      \<lparr>info_txId = ''tx-b'', info_code = MVCC_READ_CONFLICT,
       info_message = Some ''Read set validation failed''\<rparr>,
      \<lparr>info_txId = ''tx-c'', info_code = MSP_VALIDATION_FAILED,
       info_message = Some ''Invalid signature for Org1Client''\<rparr>]"

definition afterTransfer :: WorldStateStore where
  "afterTransfer = applyRWSet fundedStore transferRWSet 3 0"

definition block3Committed :: Block where
  "block3Committed = block3\<lparr>metadata := (metadata block3)\<lparr>validationInfo := Some block3Info\<rparr>\<rparr>"

text \<open>
  A block whose first transaction, endorsed and signed, writes the text \<open>str\<close> under the
  metadata key of the chaincode \<^verbatim>\<open>basic\<close>, and whose second transaction invokes that
  chaincode.
\<close>

definition poison :: "string \<Rightarrow> TransactionEnvelope" where
  "poison str =
     \<lparr>txId = ''tx-poison'', creatorId = ''Org1Client'', creatorOrgId = ''Org1'',
      creatorPubKey = ''pk-Org1Client'',
      payload = \<lparr>payload_type = INVOKE_CHAINCODE, chaincodeId = ''basic'',
                 functionName = Some ''overwrite'', args = Some [str],
                 endorsementPolicy = None\<rparr>,
      rwSet = \<lparr>reads = [],
                writes = [\<lparr>write_key = ''CHAINCODE:basic'', write_value = Some str\<rparr>]\<rparr>,
      result = None,
      endorsements = [endorsementOrg1],
      clientSignature = ''signed-with:pk-Org1Client''\<rparr>"

definition poisonedBlock :: "string \<Rightarrow> Block" where
  "poisonedBlock str =
     \<lparr>header = \<lparr>number = 3, previousHash = ''0'', dataHash = ''tx-poison|tx-b''\<rparr>,
      transactions = [poison str, transfer ''tx-b'' ''signed-with:pk-Org1Client''],
      metadata = \<lparr>timestamp = ''2024-01-01T00:00:02.000Z'', ordererId = ''orderer1'',
                   ordererSignature = ''signed-with:pk-orderer1'', validationInfo = None\<rparr>\<rparr>"

text \<open>The world state after the first transaction of that block.\<close>

definition poisonedStore :: "string \<Rightarrow> WorldStateStore" where
  "poisonedStore str = applyValidTransaction toyEnv fundedStore (poison str) 3 0"

section \<open>Canonical serialization\<close>

lemma canonicalStringify_mintAlice:
  "canonicalStringify mintAlice =
     Inr (''{'' @ QuoteJSONString ''payload'' @ '':{},'' @ QuoteJSONString ''txId'' @ '':'' @
          QuoteJSONString ''tx1'' @ ''}'')"
  by code_simp

lemma canonicalStringify_mintMallory:
  "canonicalStringify mintMallory =
     Inr (''{'' @ QuoteJSONString ''payload'' @ '':{},'' @ QuoteJSONString ''txId'' @ '':'' @
          QuoteJSONString ''tx1'' @ ''}'')"
  by code_simp

text \<open>
  C1. The claim: \<open>canonicalStringify x = canonicalStringify y\<close> exactly when \<open>x\<close> and
  \<open>y\<close> are value-equal, so that two objects differing only in a nested field such as
  \<^verbatim>\<open>payload.args\<close> never canonicalize to the same string. The code passes the sorted
  top-level keys as the replacer array of \<^verbatim>\<open>JSON.stringify\<close>, which is a property
  filter applied at every depth: the members of a nested object whose names are not
  top-level keys are dropped. The two objects below differ in \<^verbatim>\<open>payload.args\<close>
  and have the same canonical string, in which \<^verbatim>\<open>payload\<close> is the empty object.
\<close>

theorem canonicalStringify_drops_nested_fields:
  "canonicalStringify mintAlice = canonicalStringify mintMallory
   \<and> mintAlice \<noteq> mintMallory
   \<and> canonicalStringify mintAlice =
       Inr (''{'' @ QuoteJSONString ''payload'' @ '':{},'' @ QuoteJSONString ''txId'' @ '':'' @
            QuoteJSONString ''tx1'' @ ''}'')"
proof -
  have differ: "mintAlice \<noteq> mintMallory"
    by (simp add: mintAlice_def mintMallory_def)
  have same: "canonicalStringify mintAlice = canonicalStringify mintMallory"
    by (simp only: canonicalStringify_mintAlice canonicalStringify_mintMallory)
  from same differ canonicalStringify_mintAlice show ?thesis
    by (intro conjI)
qed

section \<open>World state: validation, application, frame\<close>

lemma Version_eq_iff:
  "(v = w) = (blockNum v = blockNum w \<and> txNum v = txNum w)" for v w :: Version
  by (cases v, cases w) simp

lemma stateKey_neq_versionKey: "stateKey ws k \<noteq> versionKey ws' k'"
  by (simp add: stateKey_def versionKey_def)

lemma versionKey_inject [simp]: "(versionKey ws k = versionKey ws k') = (k = k')"
  by (simp add: versionKey_def)

lemma stateKey_inject [simp]: "(stateKey ws k = stateKey ws k') = (k = k')"
  by (simp add: stateKey_def)

lemma versionKey_setState [simp]: "versionKey (setState ws k v) = versionKey ws"
  by (rule ext) (simp add: versionKey_def setState_def)

lemma versionKey_deleteState [simp]: "versionKey (deleteState ws k) = versionKey ws"
  by (rule ext) (simp add: versionKey_def deleteState_def)

lemma versionKey_setVersion [simp]: "versionKey (setVersion ws k v) = versionKey ws"
  by (rule ext) (simp add: versionKey_def setVersion_def)

lemma stateKey_setState [simp]: "stateKey (setState ws k v) = stateKey ws"
  by (rule ext) (simp add: stateKey_def setState_def)

lemma stateKey_deleteState [simp]: "stateKey (deleteState ws k) = stateKey ws"
  by (rule ext) (simp add: stateKey_def deleteState_def)

lemma stateKey_setVersion [simp]: "stateKey (setVersion ws k v) = stateKey ws"
  by (rule ext) (simp add: stateKey_def setVersion_def)

lemma getVersion_setVersion [simp]:
  "getVersion (setVersion ws k v) k' = (if k' = k then Some v else getVersion ws k')"
  by (simp add: getVersion_def setVersion_def versionKey_def)

lemma getVersion_setState [simp]: "getVersion (setState ws k v) k' = getVersion ws k'"
  by (simp add: getVersion_def setState_def versionKey_def)

lemma getVersion_deleteState [simp]: "getVersion (deleteState ws k) k' = getVersion ws k'"
  by (simp add: getVersion_def deleteState_def versionKey_def)

lemma getState_setState [simp]:
  "getState (setState ws k v) k' = (if k' = k then Some v else getState ws k')"
  by (simp add: getState_def setState_def stateKey_def)

lemma getState_deleteState [simp]:
  "getState (deleteState ws k) k' = (if k' = k then None else getState ws k')"
  by (simp add: getState_def deleteState_def stateKey_def)

lemma getState_setVersion [simp]: "getState (setVersion ws k v) k' = getState ws k'"
  by (simp add: getState_def setVersion_def stateKey_def)

lemma applyWrites_Cons:
  "applyWrites ws (w # rest) bn tn = applyWrites (applyWrite ws w bn tn) rest bn tn"
  by (simp add: applyWrite_def split: option.splits)

lemma getVersion_applyWrite:
  "getVersion (applyWrite ws w bn tn) k =
     (if k = write_key w then Some \<lparr>blockNum = bn, txNum = tn\<rparr> else getVersion ws k)"
  by (simp add: applyWrite_def split: option.splits)

lemma getState_applyWrite:
  "getState (applyWrite ws w bn tn) k =
     (if k = write_key w then write_value w else getState ws k)"
  by (simp add: applyWrite_def split: option.splits)

lemma applyWrites_keeps_stamp:
  "getVersion ws k = Some \<lparr>blockNum = bn, txNum = tn\<rparr> \<Longrightarrow>
   getVersion (applyWrites ws ws_list bn tn) k = Some \<lparr>blockNum = bn, txNum = tn\<rparr>"
proof (induction ws_list arbitrary: ws)
  case Nil
  then show ?case by simp
next
  case (Cons w rest)
  have "getVersion (applyWrite ws w bn tn) k = Some \<lparr>blockNum = bn, txNum = tn\<rparr>"
    using Cons.prems by (simp add: getVersion_applyWrite)
  then show ?case
    unfolding applyWrites_Cons by (rule Cons.IH)
qed

lemma applyWrites_stamps:
  "w \<in> set ws_list \<Longrightarrow>
   getVersion (applyWrites ws ws_list bn tn) (write_key w) = Some \<lparr>blockNum = bn, txNum = tn\<rparr>"
proof (induction ws_list arbitrary: ws)
  case Nil
  then show ?case by simp
next
  case (Cons x rest)
  show ?case
  proof (cases "w = x")
    case True
    have "getVersion (applyWrite ws x bn tn) (write_key w) = Some \<lparr>blockNum = bn, txNum = tn\<rparr>"
      using True by (simp add: getVersion_applyWrite)
    then show ?thesis
      unfolding applyWrites_Cons by (rule applyWrites_keeps_stamp)
  next
    case False
    with Cons.prems have "w \<in> set rest" by simp
    then show ?thesis
      unfolding applyWrites_Cons by (rule Cons.IH)
  qed
qed

lemma applyWrites_frame:
  "k \<notin> write_key ` set ws_list \<Longrightarrow>
   getState (applyWrites ws ws_list bn tn) k = getState ws k \<and>
   getVersion (applyWrites ws ws_list bn tn) k = getVersion ws k"
proof (induction ws_list arbitrary: ws)
  case Nil
  then show ?case by simp
next
  case (Cons x rest)
  from Cons.prems have ne: "k \<noteq> write_key x" and rest: "k \<notin> write_key ` set rest"
    by auto
  from Cons.IH [OF rest, of "applyWrite ws x bn tn"] ne show ?case
    unfolding applyWrites_Cons by (simp add: getVersion_applyWrite getState_applyWrite)
qed

lemma getVersion_emptyStore: "getVersion emptyStore k = None"
  by (simp add: emptyStore_def getVersion_def)

lemma getState_emptyStore: "getState emptyStore k = None"
  by (simp add: emptyStore_def getState_def)

lemma getVersion_aliceStore:
  "getVersion aliceStore k =
     (if k = ''balance:Alice'' then Some \<lparr>blockNum = 2, txNum = 0\<rparr> else None)"
  by (simp add: aliceStore_def applyRWSet_def emptyStore_def getVersion_def setVersion_def
      setState_def versionKey_def)

lemma getState_aliceStore:
  "getState aliceStore k = (if k = ''balance:Alice'' then Some ''400'' else None)"
  by (simp add: aliceStore_def applyRWSet_def emptyStore_def getState_def setVersion_def
      setState_def stateKey_def)

text \<open>
  C2. \<^verbatim>\<open>validateReadSet(reads)\<close> is true exactly when, for every read entry, the
  recorded version equals the version currently stored for its key. Both are values of
  type \<open>Version option\<close>: an absent version equals only an absent version, and two
  present versions are equal exactly when their \<open>blockNum\<close> and their \<open>txNum\<close> are
  (\<open>Version_eq_iff\<close>). Hence one mismatching entry, wherever it stands, makes the
  result false.
\<close>

theorem validateReadSet_iff:
  "validateReadSet ws rs = (\<forall>r \<in> set rs. read_version r = getVersion ws (read_key r))"
proof (induction rs)
  case Nil
  show ?case by simp
next
  case (Cons r rest)
  show ?case
  proof (cases "read_version r")
    case None
    then show ?thesis using Cons.IH
      by (cases "getVersion ws (read_key r)") (simp_all add: Let_def)
  next
    case (Some rv)
    show ?thesis
    proof (cases "getVersion ws (read_key r)")
      case None
      with Some show ?thesis by (simp add: Let_def)
    next
      case (Some cv)
      with \<open>read_version r = Some rv\<close> Cons.IH show ?thesis
        by (auto simp add: Let_def Version_eq_iff)
    qed
  qed
qed

theorem validateReadSet_iff_witness:
  "validateReadSet aliceStore [readAlice, readBob]
   \<and> \<not> validateReadSet aliceStore [readAlice, readAliceStale, readBob]
   \<and> \<not> validateReadSet emptyStore [readAlice]
   \<and> \<not> validateReadSet aliceStore [\<lparr>read_key = ''balance:Alice'', read_version = None\<rparr>]"
  unfolding validateReadSet_iff
  by (simp add: getVersion_aliceStore getVersion_emptyStore readAlice_def readBob_def
      readAliceStale_def)

text \<open>
  C8. After \<^verbatim>\<open>applyRWSet(rwSet, blockNum, txNum)\<close>, the version of the key of every
  write entry is \<open>(blockNum, txNum)\<close>, whether the entry is a put or a delete.
\<close>

theorem applyRWSet_stamps_version:
  "w \<in> set (writes rw) \<Longrightarrow>
   getVersion (applyRWSet ws rw bn tn) (write_key w) = Some \<lparr>blockNum = bn, txNum = tn\<rparr>"
  unfolding applyRWSet_def by (rule applyWrites_stamps)

theorem applyRWSet_stamps_version_witness:
  "getVersion (applyRWSet aliceStore putThenDelete 3 1) ''balance:Alice''
     = Some \<lparr>blockNum = 3, txNum = 1\<rparr>
   \<and> getState (applyRWSet aliceStore putThenDelete 3 1) ''balance:Alice'' = None
   \<and> getVersion (applyRWSet aliceStore putThenDelete 3 1) ''balance:Bob''
     = Some \<lparr>blockNum = 3, txNum = 1\<rparr>
   \<and> getState (applyRWSet aliceStore putThenDelete 3 1) ''balance:Bob'' = Some ''100''"
proof -
  have d: "\<lparr>write_key = ''balance:Alice'', write_value = None\<rparr> \<in> set (writes putThenDelete)"
    and p: "\<lparr>write_key = ''balance:Bob'', write_value = Some ''100''\<rparr> \<in> set (writes putThenDelete)"
    by (simp_all add: putThenDelete_def)
  have "getState (applyRWSet aliceStore putThenDelete 3 1) ''balance:Alice'' = None"
    and "getState (applyRWSet aliceStore putThenDelete 3 1) ''balance:Bob'' = Some ''100''"
    by (simp_all add: applyRWSet_def putThenDelete_def)
  with applyRWSet_stamps_version [OF d, of aliceStore 3 1]
    applyRWSet_stamps_version [OF p, of aliceStore 3 1]
  show ?thesis by simp
qed

text \<open>
  C10. \<^verbatim>\<open>applyRWSet\<close> changes only the keys of \<^verbatim>\<open>rwSet.writes\<close>: for a key that
  no write entry names, \<^verbatim>\<open>getState\<close> and \<^verbatim>\<open>getVersion\<close> return after the call what
  they returned before it. The result does not depend on \<^verbatim>\<open>rwSet.reads\<close>, and the
  call returns nothing but the store: the read-write set is not changed.
\<close>

theorem applyRWSet_frame:
  "k \<notin> write_key ` set (writes rw) \<Longrightarrow>
   getState (applyRWSet ws rw bn tn) k = getState ws k
   \<and> getVersion (applyRWSet ws rw bn tn) k = getVersion ws k
   \<and> applyRWSet ws (rw\<lparr>reads := rs\<rparr>) bn tn = applyRWSet ws rw bn tn"
  using applyWrites_frame [of k "writes rw" ws bn tn] by (simp add: applyRWSet_def)

theorem applyRWSet_frame_witness:
  "getState (applyRWSet aliceStore putThenDelete 3 1) ''totalSupply'' = None
   \<and> getVersion (applyRWSet aliceStore putThenDelete 3 1) ''totalSupply'' = None
   \<and> getState
       (applyRWSet aliceStore
          \<lparr>reads = [], writes = [\<lparr>write_key = ''balance:Bob'', write_value = Some ''100''\<rparr>]\<rparr> 3 1)
       ''balance:Alice'' = Some ''400''
   \<and> getVersion
       (applyRWSet aliceStore
          \<lparr>reads = [], writes = [\<lparr>write_key = ''balance:Bob'', write_value = Some ''100''\<rparr>]\<rparr> 3 1)
       ''balance:Alice'' = Some \<lparr>blockNum = 2, txNum = 0\<rparr>"
proof -
  have a: "''totalSupply'' \<notin> write_key ` set (writes putThenDelete)"
    by (simp add: putThenDelete_def)
  have b: "''balance:Alice'' \<notin> write_key `
      set (writes \<lparr>reads = [], writes = [\<lparr>write_key = ''balance:Bob'', write_value = Some ''100''\<rparr>]\<rparr>)"
    by simp
  from applyRWSet_frame [OF a, of aliceStore 3 1] applyRWSet_frame [OF b, of aliceStore 3 1]
  show ?thesis
    by (simp add: getState_aliceStore getVersion_aliceStore)
qed

section \<open>Execution context: reads after writes\<close>

text \<open>
  C6. The claim: within one invocation, \<^verbatim>\<open>getState(k)\<close> after \<^verbatim>\<open>putState(k, v)\<close>
  returns \<open>v\<close>, and the read set records the original version of \<open>k\<close>.

  What the code does: the context keeps the writes in \<^verbatim>\<open>writeSet\<close> only, and
  \<^verbatim>\<open>getState\<close> never looks at it. \<^verbatim>\<open>getState(k)\<close> after \<^verbatim>\<open>putState(k, v)\<close>
  returns the value that the world state holds for \<open>k\<close>, whatever \<open>v\<close> is; it appends
  to the read set the version that the world state holds for \<open>k\<close>, and leaves the write
  set as \<^verbatim>\<open>putState\<close> made it. No operation of the context changes the world state it
  reads, so this holds after any number of writes.
\<close>

theorem getState_after_putState:
  "fst (ctx_getState (putState ctx k v) k) = getState (worldState ctx) k
   \<and> readSet (snd (ctx_getState (putState ctx k v) k))
       = readSet ctx @ [\<lparr>read_key = k, read_version = getVersion (worldState ctx) k\<rparr>]
   \<and> writeSet (snd (ctx_getState (putState ctx k v) k))
       = writeSet ctx @ [\<lparr>write_key = k, write_value = Some v\<rparr>]
   \<and> worldState (putState ctx k v) = worldState ctx
   \<and> worldState (delState ctx k) = worldState ctx
   \<and> worldState (snd (ctx_getState ctx k)) = worldState ctx"
  by (simp add: ctx_getState_def putState_def delState_def Let_def)

text \<open>
  The counterexample to the claim: on an empty world state, \<^verbatim>\<open>getState('k')\<close> after
  \<^verbatim>\<open>putState('k', 'v')\<close> returns null.
\<close>

theorem getState_after_putState_counterexample:
  "fst (ctx_getState (putState (newContext ''tx1'' ''Org1Client'' ''Org1'' emptyStore) ''k'' ''v'') ''k'')
     \<noteq> Some ''v''"
  by (simp add: ctx_getState_def putState_def newContext_def emptyStore_def getState_def Let_def)

section \<open>Errors, and the canonical strings of the signed objects\<close>

lemma canonicalStringify_JObj:
  "canonicalStringify (JObj kvs) = Inr (JSON_stringify (JObj kvs) (Some (sort (remdups (map fst kvs)))))"
  by (simp add: canonicalStringify_def ObjectKeys_def bindE_def)

lemma bindE_Inr [simp]: "bindE (Inr x) f = f x"
  by (simp add: bindE_def)

lemma bindE_Inl [simp]: "bindE (Inl x) f = Inl x"
  by (simp add: bindE_def)

lemma bindE_eq_Inr: "(bindE m f = Inr y) = (\<exists>x. m = Inr x \<and> f x = Inr y)"
  by (cases m) simp_all

lemma sort_endorsement_keys:
  "sort (remdups [''proposal'', ''rwSet'', ''result'']) = [''proposal'', ''result'', ''rwSet'']"
  by code_simp

lemma canonicalStringify_endorsementObject:
  "canonicalStringify (endorsementObject tx) = Inr (endorsementData tx)"
  using sort_endorsement_keys
  by (simp add: endorsementObject_def canonicalStringify_JObj endorsementData_def)

section \<open>Endorsement and transaction validation\<close>

lemma verifyEndorsements_Cons:
  "verifyEndorsements e msp tx (en # rest) acc =
     (if \<not> valid (endorsementVerifies e msp tx en)
      then Inr (Returned \<lparr>code = ENDORSEMENT_POLICY_FAILURE,
                          message = check_error (endorsementVerifies e msp tx en)\<rparr>)
      else verifyEndorsements e msp tx rest (setAdd acc (endorserOrgId en)))"
  by (simp add: canonicalStringify_endorsementObject Let_def endorsementVerifies_def)

lemma verifyEndorsements_char:
  "verifyEndorsements e msp tx ens acc =
     Inr (case find (\<lambda>en. \<not> valid (endorsementVerifies e msp tx en)) ens of
            Some bad \<Rightarrow> Returned \<lparr>code = ENDORSEMENT_POLICY_FAILURE,
                                   message = check_error (endorsementVerifies e msp tx bad)\<rparr>
          | None \<Rightarrow> Completed (foldl setAdd acc (map endorserOrgId ens)))"
proof (induction ens arbitrary: acc)
  case Nil
  show ?case by simp
next
  case (Cons en rest)
  show ?case
    unfolding verifyEndorsements_Cons by (simp add: Cons.IH split: option.splits)
qed

lemma set_foldl_setAdd: "set (foldl setAdd acc xs) = set acc \<union> set xs"
  by (induction xs arbitrary: acc) (auto simp add: setAdd_def)

lemma includes_set: "set os = set os' \<Longrightarrow> array_includes os = array_includes os'"
  by (rule ext) (simp add: array_includes_def split: json.splits)

lemma checkEndorsementPolicy_set:
  "set os = set os' \<Longrightarrow> checkEndorsementPolicy p os = checkEndorsementPolicy p os'"
  unfolding checkEndorsementPolicy_def by (simp only: includes_set [of os os'])

lemma checkEndorsements_char:
  "checkEndorsements e msp tx p = endorsementVerdict e msp tx p"
proof -
  have "checkEndorsementPolicy p (foldl setAdd [] (map endorserOrgId (endorsements tx)))
      = checkEndorsementPolicy p (remdups (map endorserOrgId (endorsements tx)))"
    by (rule checkEndorsementPolicy_set) (simp add: set_foldl_setAdd)
  then show ?thesis
    by (simp add: checkEndorsements_def verifyEndorsements_char endorsementVerdict_def
        split: option.splits)
qed

lemma validateEndorsements_char:
  "validateEndorsements e msp ws tx =
     bindE (resolvePolicy e ws tx) (\<lambda>r.
       case r of
         None \<Rightarrow> Inr \<lparr>code = BAD_PAYLOAD, message = Some ''Chaincode not found''\<rparr>
       | Some policy \<Rightarrow> endorsementVerdict e msp tx policy)"
proof (cases "payload_type (payload tx) = DEPLOY_CHAINCODE")
  case True
  then show ?thesis
    by (simp add: validateEndorsements_def resolvePolicy_def checkEndorsements_char)
next
  case False
  show ?thesis
  proof (cases "getChaincodeMetadata e ws (chaincodeId (payload tx))")
    case (Inl err)
    with False show ?thesis
      by (simp add: validateEndorsements_def resolvePolicy_def)
  next
    case (Inr metadata)
    show ?thesis
    proof (cases "falsy metadata")
      case True
      with False Inr show ?thesis
        by (simp add: validateEndorsements_def resolvePolicy_def)
    next
      case notFalsy: False
      show ?thesis
      proof (cases "getProperty (Some metadata) ''endorsementPolicy''")
        case (Inl err)
        with False Inr notFalsy show ?thesis
          by (simp add: validateEndorsements_def resolvePolicy_def)
      next
        case (Inr policy)
        with False \<open>getChaincodeMetadata e ws (chaincodeId (payload tx)) = Inr metadata\<close> notFalsy
        show ?thesis
          by (simp add: validateEndorsements_def resolvePolicy_def checkEndorsements_char)
      qed
    qed
  qed
qed

lemma endorsementVerdict_failing:
  "find (\<lambda>en. \<not> valid (endorsementVerifies e msp tx en)) (endorsements tx) = Some bad \<Longrightarrow>
   endorsementVerdict e msp tx policy
     = Inr \<lparr>code = ENDORSEMENT_POLICY_FAILURE,
            message = check_error (endorsementVerifies e msp tx bad)\<rparr>"
  by (simp add: endorsementVerdict_def)

lemma endorsementVerdict_verified:
  "find (\<lambda>en. \<not> valid (endorsementVerifies e msp tx en)) (endorsements tx) = None \<Longrightarrow>
   endorsementVerdict e msp tx policy
     = checkEndorsementPolicy policy (remdups (map endorserOrgId (endorsements tx)))"
  by (simp add: endorsementVerdict_def)

lemma find_None_all_verify:
  "(find (\<lambda>en. \<not> valid (endorsementVerifies e msp tx en)) ens = None)
     = (\<forall>en \<in> set ens. valid (endorsementVerifies e msp tx en))"
  by (auto simp add: find_None_iff)

text \<open>The policy of a typed value: the verdict of \<^verbatim>\<open>checkEndorsementPolicy\<close>.\<close>

lemma includes_JStr [simp]: "array_includes os (JStr s) = (s \<in> set os)"
  by (simp add: array_includes_def)

lemma getProperty_jsonOfPolicy:
  "getProperty (Some (jsonOfPolicy p)) ''type'' = Inr (Some (JStr (policy_type p)))"
  "policyOrgs (Some (jsonOfPolicy p)) = Inr (map JStr (orgs p))"
  by (simp_all add: getProperty_def policyOrgs_def jsonOfPolicy_def)

lemma checkEndorsementPolicy_typed:
  "checkEndorsementPolicy (Some (jsonOfPolicy p)) os =
     Inr (if policy_type p = ''ANY'' then
            (if \<exists>org \<in> set (orgs p). org \<in> set os
             then \<lparr>code = VALID, message = None\<rparr>
             else \<lparr>code = ENDORSEMENT_POLICY_FAILURE, message = Some ''ANY policy not satisfied''\<rparr>)
          else if policy_type p = ''ALL'' then
            (if \<forall>org \<in> set (orgs p). org \<in> set os
             then \<lparr>code = VALID, message = None\<rparr>
             else \<lparr>code = ENDORSEMENT_POLICY_FAILURE, message = Some ''ALL policy not satisfied''\<rparr>)
          else if policy_type p = ''MAJORITY'' then
            (if length (filter (\<lambda>org. org \<in> set os) (orgs p)) \<ge> length (orgs p) div 2 + 1
             then \<lparr>code = VALID, message = None\<rparr>
             else \<lparr>code = ENDORSEMENT_POLICY_FAILURE,
                   message = Some ''MAJORITY policy not satisfied''\<rparr>)
          else \<lparr>code = BAD_PAYLOAD, message = Some ''Unknown endorsement policy type''\<rparr>)"
proof -
  have count: "array_includes os \<circ> JStr = (\<lambda>org. org \<in> set os)"
    by (rule ext) simp
  show ?thesis
    unfolding checkEndorsementPolicy_def getProperty_jsonOfPolicy bindE_Inr
    by (simp add: list_ex_iff list_all_iff Let_def count)
qed

lemma checkEndorsementPolicy_not_MVCC:
  "checkEndorsementPolicy policy os = Inr v \<Longrightarrow> code v \<noteq> MVCC_READ_CONFLICT"
  by (auto simp add: checkEndorsementPolicy_def bindE_eq_Inr Let_def split: if_splits)

lemma validateEndorsements_not_MVCC:
  assumes "validateEndorsements e msp ws tx = Inr x"
  shows "code x \<noteq> MVCC_READ_CONFLICT"
proof (cases "resolvePolicy e ws tx")
  case (Inl err)
  with assms show ?thesis by (simp add: validateEndorsements_char)
next
  case (Inr r)
  show ?thesis
  proof (cases r)
    case None
    with assms Inr show ?thesis by (auto simp add: validateEndorsements_char)
  next
    case (Some policy)
    with assms Inr have v: "endorsementVerdict e msp tx policy = Inr x"
      by (simp add: validateEndorsements_char)
    show ?thesis
    proof (cases "find (\<lambda>en. \<not> valid (endorsementVerifies e msp tx en)) (endorsements tx)")
      case None
      with v have "checkEndorsementPolicy policy (remdups (map endorserOrgId (endorsements tx)))
          = Inr x"
        by (simp add: endorsementVerdict_verified)
      then show ?thesis by (rule checkEndorsementPolicy_not_MVCC)
    next
      case (Some bad)
      with v show ?thesis
        by (auto simp add: endorsementVerdict_failing)
    qed
  qed
qed

lemma sort_envelope_keys:
  "sort (remdups [''txId'', ''creatorId'', ''creatorOrgId'', ''creatorPubKey'', ''payload'',
                  ''rwSet'', ''result'', ''endorsements''])
   = [''creatorId'', ''creatorOrgId'', ''creatorPubKey'', ''endorsements'', ''payload'',
      ''result'', ''rwSet'', ''txId'']"
  by code_simp

lemma canonicalStringify_signedEnvelopeObject:
  "canonicalStringify (signedEnvelopeObject tx) = Inr (envelopeData tx)"
proof -
  have "canonicalStringify (signedEnvelopeObject tx)
      = Inr (JSON_stringify (signedEnvelopeObject tx)
          (Some (sort (remdups [''txId'', ''creatorId'', ''creatorOrgId'', ''creatorPubKey'',
                  ''payload'', ''rwSet'', ''result'', ''endorsements'']))))"
    by (simp add: signedEnvelopeObject_def canonicalStringify_JObj)
  then show ?thesis
    by (simp only: sort_envelope_keys envelopeData_def)
qed

lemma validateTransaction_char:
  "validateTransaction e msp ws tx bn tn =
     (if \<not> valid (clientSignatureCheck e msp tx)
      then Inr \<lparr>code = MSP_VALIDATION_FAILED,
                message = check_error (clientSignatureCheck e msp tx)\<rparr>
      else bindE (validateEndorsements e msp ws tx) (\<lambda>x.
             if code x \<noteq> VALID then Inr x
             else if \<not> validateReadSet ws (reads (rwSet tx))
               then Inr \<lparr>code = MVCC_READ_CONFLICT,
                         message = Some ''Read set validation failed''\<rparr>
               else Inr \<lparr>code = VALID, message = None\<rparr>))"
  unfolding validateTransaction_def canonicalStringify_signedEnvelopeObject Let_def
    clientSignatureCheck_def bindE_Inr
  by (rule refl)

lemma validateTransaction_VALID:
  assumes "validateTransaction e msp ws tx bn tn = Inr v"
  shows "(code v = VALID \<longrightarrow> validateReadSet ws (reads (rwSet tx)))
       \<and> (code v = MVCC_READ_CONFLICT \<longrightarrow> \<not> validateReadSet ws (reads (rwSet tx)))"
proof (cases "valid (clientSignatureCheck e msp tx)")
  case False
  with assms have "code v = MSP_VALIDATION_FAILED"
    by (auto simp add: validateTransaction_char)
  then show ?thesis by simp
next
  case True
  show ?thesis
  proof (cases "validateEndorsements e msp ws tx")
    case (Inl err)
    with assms True show ?thesis by (simp add: validateTransaction_char)
  next
    case (Inr x)
    from validateEndorsements_not_MVCC [OF Inr] assms True Inr show ?thesis
      by (auto simp add: validateTransaction_char split: if_splits)
  qed
qed

lemma validateTransaction_endorsement_failure:
  "valid (clientSignatureCheck e msp tx) \<Longrightarrow> validateEndorsements e msp ws tx = Inr v \<Longrightarrow>
   code v \<noteq> VALID \<Longrightarrow> validateTransaction e msp ws tx bn tn = Inr v"
  by (simp add: validateTransaction_char)


section \<open>Endorsement validation\<close>

lemma endorsementVerifies_Org1:
  "endorsementVerifies toyEnv toyMSP tx endorsementOrg1 =
     \<lparr>valid = True,
      check_identity = Some \<lparr>identity_id = ''Org1Peer1'', orgId = ''Org1'', role = PEER,
                           publicKey = ''pk-Org1Peer1''\<rparr>,
      check_error = None\<rparr>"
  by (simp add: endorsementVerifies_def verifySignature_def getIdentity_def toyMSP_def
      toyEnv_def endorsementOrg1_def)

lemma endorsementVerifies_Forged:
  "endorsementVerifies toyEnv toyMSP tx endorsementForged =
     \<lparr>valid = False, check_identity = None,
      check_error = Some ''Invalid signature for Org2Peer1''\<rparr>"
  by (simp add: endorsementVerifies_def verifySignature_def getIdentity_def toyMSP_def
      toyEnv_def endorsementForged_def)

lemma resolvePolicy_deployBasic:
  "resolvePolicy e ws (deployBasic ens) = Inr (Some (Some (jsonOfPolicy basicPolicy)))"
  by (simp add: resolvePolicy_def deployBasic_def defaultPolicy_def)

lemma resolvePolicy_invokeUndeployed:
  "resolvePolicy toyEnv emptyStore invokeUndeployed = Inr None"
  by (simp add: resolvePolicy_def invokeUndeployed_def getChaincodeMetadata_def getState_def
      emptyStore_def falsy_def)

lemma endorsements_deployBasic: "endorsements (deployBasic ens) = ens"
  by (simp add: deployBasic_def)

lemma endorsements_invokeUndeployed: "endorsements invokeUndeployed = [endorsementForged]"
  by (simp add: invokeUndeployed_def)

lemma endorserOrgId_Org1: "endorserOrgId endorsementOrg1 = ''Org1''"
  by (simp add: endorsementOrg1_def)

lemma checkEndorsementPolicy_basicPolicy:
  "checkEndorsementPolicy (Some (jsonOfPolicy basicPolicy)) [''Org1'']
     = Inr \<lparr>code = VALID, message = None\<rparr>"
  "checkEndorsementPolicy (Some (jsonOfPolicy basicPolicy)) []
     = Inr \<lparr>code = ENDORSEMENT_POLICY_FAILURE, message = Some ''ANY policy not satisfied''\<rparr>"
  by (simp_all add: checkEndorsementPolicy_typed basicPolicy_def)

lemma clientSignatureCheck_deployBasic:
  "valid (clientSignatureCheck toyEnv toyMSP (deployBasic ens))"
  by (simp add: clientSignatureCheck_def verifySignature_def getIdentity_def toyMSP_def
      toyEnv_def deployBasic_def)

lemma clientSignatureCheck_invokeUndeployed:
  "valid (clientSignatureCheck toyEnv toyMSP invokeUndeployed)"
  by (simp add: clientSignatureCheck_def verifySignature_def getIdentity_def toyMSP_def
      toyEnv_def invokeUndeployed_def)

lemma resolvePolicy_cases:
  "payload_type (payload tx) = DEPLOY_CHAINCODE \<Longrightarrow>
   resolvePolicy e ws tx = Inr (Some (Some (jsonOfPolicy (defaultPolicy tx))))"
  "payload_type (payload tx) \<noteq> DEPLOY_CHAINCODE \<Longrightarrow>
   getState ws (chaincodeKey (chaincodeId (payload tx))) = None \<Longrightarrow>
   resolvePolicy e ws tx = Inr None"
  by (simp_all add: resolvePolicy_def getChaincodeMetadata_def falsy_def)

text \<open>
  C7. The claim: the committer verifies every endorsement signature with the role
  \<^verbatim>\<open>PEER\<close> over \<^verbatim>\<open>canonical({proposal:{txId,payload}, rwSet, result})\<close>, collects
  the distinct \<^verbatim>\<open>endorserOrgId\<close> of the endorsements that verify, and evaluates the
  policy over them, so that an endorsement that does not verify is left out and does
  not fail a transaction whose other endorsements satisfy the policy.

  What the code does. It first resolves the policy: the one of the payload for a
  deployment, the one of the stored metadata for an invocation. An invocation of a
  chaincode that has no metadata is \<^verbatim>\<open>BAD_PAYLOAD\<close> before any endorsement is looked
  at. When the policy is resolved, the endorsements are verified in order, each with
  the role \<^verbatim>\<open>PEER\<close> over that canonical string; the first endorsement that does not
  verify ends the validation with \<^verbatim>\<open>ENDORSEMENT_POLICY_FAILURE\<close> and the error of
  that verification, whatever the other endorsements are. When every endorsement
  verifies, the policy is evaluated over the distinct \<^verbatim>\<open>endorserOrgId\<close> of all
  endorsements. When the client signature verifies, a verdict of the endorsement
  validation other than \<^verbatim>\<open>VALID\<close> is the verdict of the transaction.
\<close>

theorem validateEndorsements_first_failure_fails:
  "canonicalStringify (endorsementObject tx) = Inr (endorsementData tx)
   \<and> validateEndorsements e msp ws tx =
     bindE (resolvePolicy e ws tx) (\<lambda>r.
       case r of
         None \<Rightarrow> Inr \<lparr>code = BAD_PAYLOAD, message = Some ''Chaincode not found''\<rparr>
       | Some policy \<Rightarrow>
          (case find (\<lambda>en. \<not> valid (endorsementVerifies e msp tx en)) (endorsements tx) of
            Some bad \<Rightarrow> Inr \<lparr>code = ENDORSEMENT_POLICY_FAILURE,
                              message = check_error (endorsementVerifies e msp tx bad)\<rparr>
          | None \<Rightarrow> checkEndorsementPolicy policy
                      (remdups (map endorserOrgId (endorsements tx)))))
   \<and> (payload_type (payload tx) = DEPLOY_CHAINCODE \<longrightarrow>
        resolvePolicy e ws tx = Inr (Some (Some (jsonOfPolicy (defaultPolicy tx)))))
   \<and> (payload_type (payload tx) \<noteq> DEPLOY_CHAINCODE \<longrightarrow>
        getState ws (chaincodeKey (chaincodeId (payload tx))) = None \<longrightarrow>
        resolvePolicy e ws tx = Inr None)
   \<and> (resolvePolicy e ws tx = Inr None \<longrightarrow>
        validateEndorsements e msp ws tx
          = Inr \<lparr>code = BAD_PAYLOAD, message = Some ''Chaincode not found''\<rparr>
        \<and> (valid (clientSignatureCheck e msp tx) \<longrightarrow>
             validateTransaction e msp ws tx bn tn
               = Inr \<lparr>code = BAD_PAYLOAD, message = Some ''Chaincode not found''\<rparr>))
   \<and> (resolvePolicy e ws tx = Inr (Some policy) \<longrightarrow>
      find (\<lambda>en. \<not> valid (endorsementVerifies e msp tx en)) (endorsements tx) = Some bad \<longrightarrow>
        validateEndorsements e msp ws tx
          = Inr \<lparr>code = ENDORSEMENT_POLICY_FAILURE,
                 message = check_error (endorsementVerifies e msp tx bad)\<rparr>
        \<and> (valid (clientSignatureCheck e msp tx) \<longrightarrow>
             validateTransaction e msp ws tx bn tn
               = Inr \<lparr>code = ENDORSEMENT_POLICY_FAILURE,
                      message = check_error (endorsementVerifies e msp tx bad)\<rparr>))
   \<and> (resolvePolicy e ws tx = Inr (Some policy) \<longrightarrow>
      (\<forall>en \<in> set (endorsements tx). valid (endorsementVerifies e msp tx en)) \<longrightarrow>
        validateEndorsements e msp ws tx
          = checkEndorsementPolicy policy (remdups (map endorserOrgId (endorsements tx))))"
proof -
  have a: "canonicalStringify (endorsementObject tx) = Inr (endorsementData tx)"
    by (rule canonicalStringify_endorsementObject)
  have b: "validateEndorsements e msp ws tx =
     bindE (resolvePolicy e ws tx) (\<lambda>r.
       case r of
         None \<Rightarrow> Inr \<lparr>code = BAD_PAYLOAD, message = Some ''Chaincode not found''\<rparr>
       | Some policy \<Rightarrow>
          (case find (\<lambda>en. \<not> valid (endorsementVerifies e msp tx en)) (endorsements tx) of
            Some bad \<Rightarrow> Inr \<lparr>code = ENDORSEMENT_POLICY_FAILURE,
                              message = check_error (endorsementVerifies e msp tx bad)\<rparr>
          | None \<Rightarrow> checkEndorsementPolicy policy
                      (remdups (map endorserOrgId (endorsements tx)))))"
    unfolding validateEndorsements_char endorsementVerdict_def by (rule refl)
  have c: "payload_type (payload tx) = DEPLOY_CHAINCODE \<longrightarrow>
        resolvePolicy e ws tx = Inr (Some (Some (jsonOfPolicy (defaultPolicy tx))))"
    by (simp add: resolvePolicy_cases)
  have d: "payload_type (payload tx) \<noteq> DEPLOY_CHAINCODE \<longrightarrow>
        getState ws (chaincodeKey (chaincodeId (payload tx))) = None \<longrightarrow>
        resolvePolicy e ws tx = Inr None"
    by (simp add: resolvePolicy_cases)
  have f: "resolvePolicy e ws tx = Inr None \<longrightarrow>
        validateEndorsements e msp ws tx
          = Inr \<lparr>code = BAD_PAYLOAD, message = Some ''Chaincode not found''\<rparr>
        \<and> (valid (clientSignatureCheck e msp tx) \<longrightarrow>
             validateTransaction e msp ws tx bn tn
               = Inr \<lparr>code = BAD_PAYLOAD, message = Some ''Chaincode not found''\<rparr>)"
    by (simp add: validateEndorsements_char validateTransaction_char)
  have g: "resolvePolicy e ws tx = Inr (Some policy) \<longrightarrow>
      find (\<lambda>en. \<not> valid (endorsementVerifies e msp tx en)) (endorsements tx) = Some bad \<longrightarrow>
        validateEndorsements e msp ws tx
          = Inr \<lparr>code = ENDORSEMENT_POLICY_FAILURE,
                 message = check_error (endorsementVerifies e msp tx bad)\<rparr>
        \<and> (valid (clientSignatureCheck e msp tx) \<longrightarrow>
             validateTransaction e msp ws tx bn tn
               = Inr \<lparr>code = ENDORSEMENT_POLICY_FAILURE,
                      message = check_error (endorsementVerifies e msp tx bad)\<rparr>)"
    by (simp add: validateEndorsements_char validateTransaction_char endorsementVerdict_failing)
  have h: "resolvePolicy e ws tx = Inr (Some policy) \<longrightarrow>
      (\<forall>en \<in> set (endorsements tx). valid (endorsementVerifies e msp tx en)) \<longrightarrow>
        validateEndorsements e msp ws tx
          = checkEndorsementPolicy policy (remdups (map endorserOrgId (endorsements tx)))"
    by (simp add: validateEndorsements_char endorsementVerdict_verified
        find_None_all_verify [symmetric])
  show ?thesis
    by (intro conjI a b c d f g h)
qed

theorem validateEndorsements_first_failure_fails_witness:
  "validateTransaction toyEnv toyMSP emptyStore (deployBasic [endorsementForged, endorsementOrg1]) 0 0
     = Inr \<lparr>code = ENDORSEMENT_POLICY_FAILURE,
            message = Some ''Invalid signature for Org2Peer1''\<rparr>
   \<and> validateEndorsements toyEnv toyMSP emptyStore (deployBasic [endorsementOrg1, endorsementOrg1])
     = Inr \<lparr>code = VALID, message = None\<rparr>
   \<and> validateTransaction toyEnv toyMSP emptyStore invokeUndeployed 0 0
     = Inr \<lparr>code = BAD_PAYLOAD, message = Some ''Chaincode not found''\<rparr>"
proof -
  have forged: "find (\<lambda>en. \<not> valid (endorsementVerifies toyEnv toyMSP
          (deployBasic [endorsementForged, endorsementOrg1]) en))
        (endorsements (deployBasic [endorsementForged, endorsementOrg1]))
      = Some endorsementForged"
    by (simp add: endorsements_deployBasic endorsementVerifies_Forged)
  have verified: "\<forall>en \<in> set (endorsements (deployBasic [endorsementOrg1, endorsementOrg1])).
      valid (endorsementVerifies toyEnv toyMSP (deployBasic [endorsementOrg1, endorsementOrg1]) en)"
    by (simp add: endorsements_deployBasic endorsementVerifies_Org1)
  from validateEndorsements_first_failure_fails
         [of "deployBasic [endorsementForged, endorsementOrg1]" toyEnv toyMSP emptyStore 0 0
             "Some (jsonOfPolicy basicPolicy)" endorsementForged]
       forged
  have one: "validateTransaction toyEnv toyMSP emptyStore
        (deployBasic [endorsementForged, endorsementOrg1]) 0 0
     = Inr \<lparr>code = ENDORSEMENT_POLICY_FAILURE,
            message = Some ''Invalid signature for Org2Peer1''\<rparr>"
    by (simp add: resolvePolicy_deployBasic clientSignatureCheck_deployBasic
        endorsementVerifies_Forged)
  from validateEndorsements_first_failure_fails
         [of "deployBasic [endorsementOrg1, endorsementOrg1]" toyEnv toyMSP emptyStore 0 0
             "Some (jsonOfPolicy basicPolicy)" endorsementForged]
       verified
  have two: "validateEndorsements toyEnv toyMSP emptyStore
        (deployBasic [endorsementOrg1, endorsementOrg1])
     = Inr \<lparr>code = VALID, message = None\<rparr>"
    by (simp add: resolvePolicy_deployBasic endorsements_deployBasic endorserOrgId_Org1
        checkEndorsementPolicy_basicPolicy)
  from validateEndorsements_first_failure_fails
         [of invokeUndeployed toyEnv toyMSP emptyStore 0 0
             "Some (jsonOfPolicy basicPolicy)" endorsementForged]
  have three: "validateTransaction toyEnv toyMSP emptyStore invokeUndeployed 0 0
     = Inr \<lparr>code = BAD_PAYLOAD, message = Some ''Chaincode not found''\<rparr>"
    by (simp add: resolvePolicy_invokeUndeployed clientSignatureCheck_invokeUndeployed)
  from one two three show ?thesis
    by (intro conjI)
qed

text \<open>
  The counterexample to the claim: the deployment endorsed by the peer of \<^verbatim>\<open>Org1\<close>
  satisfies its policy; with a second endorsement whose signature does not verify, the
  same deployment fails.
\<close>

theorem validateEndorsements_unverifiable_endorsement_counterexample:
  "validateEndorsements toyEnv toyMSP emptyStore (deployBasic [endorsementOrg1])
     = Inr \<lparr>code = VALID, message = None\<rparr>
   \<and> validateEndorsements toyEnv toyMSP emptyStore (deployBasic [endorsementOrg1, endorsementForged])
     = Inr \<lparr>code = ENDORSEMENT_POLICY_FAILURE,
            message = Some ''Invalid signature for Org2Peer1''\<rparr>"
  by (simp add: validateEndorsements_char endorsementVerdict_def resolvePolicy_deployBasic
      endorsements_deployBasic endorsementVerifies_Org1 endorsementVerifies_Forged
      endorserOrgId_Org1 checkEndorsementPolicy_basicPolicy)

section \<open>The commit loop and the ledger\<close>

lemma commitLoop_Cons:
  "commitLoop e msp bn (tx # rest) i (info, ws) =
     bindE (validateTransaction e msp ws tx bn (int i)) (\<lambda>v.
       commitLoop e msp bn rest (Suc i)
         (info @ [validationEntry tx v],
          if code v = VALID then applyValidTransaction e ws tx bn i else ws))"
  by (simp add: Let_def validationEntry_def)

lemma Validation_eta: "\<lparr>code = code v, message = message v\<rparr> = v" for v :: Validation
  by simp

lemma commitLoop_char:
  "commitLoop e msp bn txs i (info0, ws) = Inr (info, wsN) \<Longrightarrow>
   \<exists>new. info = info0 @ new \<and> length new = length txs
     \<and> wsN = applyValid e bn i (zip txs (map info_code new)) ws
     \<and> (\<forall>k < length txs.
           validateTransaction e msp
             (applyValid e bn i (zip (take k txs) (map info_code (take k new))) ws)
             (txs ! k) bn (int (i + k))
           = Inr \<lparr>code = info_code (new ! k), message = info_message (new ! k)\<rparr>
           \<and> info_txId (new ! k) = txId (txs ! k))"
proof (induction txs arbitrary: i info0 ws)
  case Nil
  then show ?case by simp
next
  case (Cons tx rest)
  from Cons.prems obtain v where
    v: "validateTransaction e msp ws tx bn (int i) = Inr v" and
    loop: "commitLoop e msp bn rest (Suc i)
         (info0 @ [validationEntry tx v],
          if code v = VALID then applyValidTransaction e ws tx bn i else ws) = Inr (info, wsN)"
    unfolding commitLoop_Cons bindE_eq_Inr by blast
  let ?ws1 = "if code v = VALID then applyValidTransaction e ws tx bn i else ws"
  from Cons.IH [OF loop] obtain new' where
    info: "info = (info0 @ [validationEntry tx v]) @ new'" and
    len: "length new' = length rest" and
    fin: "wsN = applyValid e bn (Suc i) (zip rest (map info_code new')) ?ws1" and
    steps: "\<forall>k < length rest.
           validateTransaction e msp
             (applyValid e bn (Suc i) (zip (take k rest) (map info_code (take k new'))) ?ws1)
             (rest ! k) bn (int (Suc i + k))
           = Inr \<lparr>code = info_code (new' ! k), message = info_message (new' ! k)\<rparr>
           \<and> info_txId (new' ! k) = txId (rest ! k)"
    by blast
  let ?new = "validationEntry tx v # new'"
  have a: "info = info0 @ ?new" using info by simp
  have b: "length ?new = length (tx # rest)" using len by simp
  have c: "wsN = applyValid e bn i (zip (tx # rest) (map info_code ?new)) ws"
    using fin by (simp add: validationEntry_def)
  have d: "validateTransaction e msp
             (applyValid e bn i (zip (take k (tx # rest)) (map info_code (take k ?new))) ws)
             ((tx # rest) ! k) bn (int (i + k))
           = Inr \<lparr>code = info_code (?new ! k), message = info_message (?new ! k)\<rparr>
           \<and> info_txId (?new ! k) = txId ((tx # rest) ! k)"
    if k: "k < length (tx # rest)" for k
  proof (cases k)
    case 0
    then show ?thesis using v by (simp add: validationEntry_def)
  next
    case (Suc k')
    with k have "k' < length rest" by simp
    with steps have
      "validateTransaction e msp
             (applyValid e bn (Suc i) (zip (take k' rest) (map info_code (take k' new'))) ?ws1)
             (rest ! k') bn (int (Suc i + k'))
           = Inr \<lparr>code = info_code (new' ! k'), message = info_message (new' ! k')\<rparr>
           \<and> info_txId (new' ! k') = txId (rest ! k')"
      by blast
    then show ?thesis using Suc by (simp add: validationEntry_def)
  qed
  from a b c d show ?case by blast
qed

lemma calculateBlockHash_digest: "\<exists>data. calculateBlockHash e block = Inr (hash e data)"
proof -
  have "\<exists>ys. mapE (\<lambda>tx. canonicalStringify (jsonOfTransactionEnvelope tx)) txs = Inr ys" for txs
    by (induction txs) (auto simp add: jsonOfTransactionEnvelope_def canonicalStringify_JObj)
  then obtain ys where
    "mapE (\<lambda>tx. canonicalStringify (jsonOfTransactionEnvelope tx)) (transactions block) = Inr ys"
    by blast
  moreover obtain hd where "canonicalStringify (jsonOfBlockHeader (header block)) = Inr hd"
    by (simp add: jsonOfBlockHeader_def canonicalStringify_JObj)
  moreover obtain md where "canonicalStringify (jsonOfBlockMetadata (metadata block)) = Inr md"
    by (simp add: jsonOfBlockMetadata_def canonicalStringify_JObj)
  ultimately have "calculateBlockHash e block = Inr (hash e (hd @ concat ys @ md))"
    by (simp add: calculateBlockHash_def)
  then show ?thesis by blast
qed

lemma storeBlock_char:
  "\<exists>ledger'. storeBlock e ledger block = Inr ledger'
     \<and> getBlock ledger' (number (header block)) = Some block
     \<and> getLatestBlockNumber ledger' = number (header block)
     \<and> (\<forall>n. n \<noteq> number (header block) \<longrightarrow> getBlock ledger' n = getBlock ledger n)"
proof -
  obtain data where "calculateBlockHash e block = Inr (hash e data)"
    using calculateBlockHash_digest by blast
  then show ?thesis
    by (simp add: storeBlock_def Let_def getBlock_def getLatestBlockNumber_def)
qed

lemma applyValid_append:
  "applyValid e bn i (xs @ ys) ws = applyValid e bn (i + length xs) ys (applyValid e bn i xs ws)"
  by (induction xs arbitrary: i ws) auto

lemma worldStateBefore_0 [simp]: "worldStateBefore e bn txs codes 0 ws = ws"
  by (simp add: worldStateBefore_def)

lemma worldStateBefore_Suc:
  assumes "k < length txs" "k < length codes"
  shows "worldStateBefore e bn txs codes (Suc k) ws =
     (if codes ! k = VALID
      then applyValidTransaction e (worldStateBefore e bn txs codes k ws) (txs ! k) bn k
      else worldStateBefore e bn txs codes k ws)"
proof -
  have "zip (take (Suc k) txs) (take (Suc k) codes)
      = zip (take k txs) (take k codes) @ [(txs ! k, codes ! k)]"
    using assms by (simp add: take_Suc_conv_app_nth)
  moreover have "length (zip (take k txs) (take k codes)) = k"
    using assms by simp
  ultimately show ?thesis
    by (simp add: worldStateBefore_def applyValid_append)
qed

lemma worldStateBefore_all:
  "length codes = length txs \<Longrightarrow>
   worldStateBefore e bn txs codes (length txs) ws = applyValid e bn 0 (zip txs codes) ws"
  by (simp add: worldStateBefore_def)

section \<open>Endorsement policy\<close>

lemma length_filter_distinct:
  "distinct xs \<Longrightarrow> length (filter (\<lambda>x. x \<in> A) xs) = card (set xs \<inter> A)"
proof -
  assume d: "distinct xs"
  have len: "card (set (filter (\<lambda>x. x \<in> A) xs)) = length (filter (\<lambda>x. x \<in> A) xs)"
    by (rule distinct_card) (simp add: d)
  have inter: "set (filter (\<lambda>x. x \<in> A) xs) = set xs \<inter> A"
    by auto
  show ?thesis
    unfolding inter [symmetric] len by (rule refl)
qed

lemma verdictCode_Inr [simp]: "verdictCode (Inr v) = Some (code v)"
  by (simp add: verdictCode_def)

lemma resolvePolicy_deployAll:
  "resolvePolicy e ws deployAll = Inr (Some (Some (jsonOfPolicy allPolicy)))"
  by (simp add: resolvePolicy_def deployAll_def deployBasic_def defaultPolicy_def)

lemma endorsements_deployAll: "endorsements deployAll = [endorsementOrg1]"
  by (simp add: deployAll_def deployBasic_def)

lemma clientSignatureCheck_deployAll:
  "valid (clientSignatureCheck toyEnv toyMSP deployAll)"
  by (simp add: clientSignatureCheck_def verifySignature_def getIdentity_def toyMSP_def
      toyEnv_def deployAll_def deployBasic_def)

lemma checkEndorsementPolicy_allPolicy:
  "checkEndorsementPolicy (Some (jsonOfPolicy allPolicy)) [''Org1'']
     = Inr \<lparr>code = ENDORSEMENT_POLICY_FAILURE, message = Some ''ALL policy not satisfied''\<rparr>"
  by (simp add: checkEndorsementPolicy_typed allPolicy_def)

text \<open>
  C4. The evaluation of a policy over the endorsing organizations: \<^verbatim>\<open>ANY\<close> succeeds
  exactly when some organization of \<^verbatim>\<open>policy.orgs\<close> is among them, \<^verbatim>\<open>ALL\<close> exactly
  when every one is, \<^verbatim>\<open>MAJORITY\<close> exactly when the number of entries of
  \<^verbatim>\<open>policy.orgs\<close> that are among them is at least \<open>\<lfloor>|policy.orgs| / 2\<rfloor> + 1\<close>, where
  \<open>|policy.orgs|\<close> is the length of the array; when \<^verbatim>\<open>policy.orgs\<close> has no repeated
  entry these are the cardinalities of the sets. A policy of one of the three types that
  does not succeed gives \<^verbatim>\<open>ENDORSEMENT_POLICY_FAILURE\<close>.

  The evaluation is the one that endorsement validation performs: when the policy of the
  transaction is resolved and every endorsement verifies, the result of
  \<^verbatim>\<open>validateEndorsements\<close> is the evaluation of that policy over the distinct
  \<^verbatim>\<open>endorserOrgId\<close> of the endorsements. A transaction whose client signature verifies
  and whose endorsement validation gives a code other than \<^verbatim>\<open>VALID\<close> gets that code;
  so, when the evaluation of a policy of one of the three types fails, the transaction
  is marked \<^verbatim>\<open>ENDORSEMENT_POLICY_FAILURE\<close>.
\<close>

theorem checkEndorsementPolicy_semantics:
  "(policy_type p = ''ANY'' \<longrightarrow>
      (verdictCode (checkEndorsementPolicy (Some (jsonOfPolicy p)) os) = Some VALID)
        = (\<exists>org \<in> set (orgs p). org \<in> set os))
   \<and> (policy_type p = ''ALL'' \<longrightarrow>
      (verdictCode (checkEndorsementPolicy (Some (jsonOfPolicy p)) os) = Some VALID)
        = (\<forall>org \<in> set (orgs p). org \<in> set os))
   \<and> (policy_type p = ''MAJORITY'' \<longrightarrow>
      (verdictCode (checkEndorsementPolicy (Some (jsonOfPolicy p)) os) = Some VALID)
        = (length (filter (\<lambda>org. org \<in> set os) (orgs p)) \<ge> length (orgs p) div 2 + 1))
   \<and> (policy_type p = ''MAJORITY'' \<longrightarrow> distinct (orgs p) \<longrightarrow>
      (verdictCode (checkEndorsementPolicy (Some (jsonOfPolicy p)) os) = Some VALID)
        = (card (set (orgs p) \<inter> set os) \<ge> card (set (orgs p)) div 2 + 1))
   \<and> (policy_type p \<in> {''ANY'', ''ALL'', ''MAJORITY''} \<longrightarrow>
      verdictCode (checkEndorsementPolicy (Some (jsonOfPolicy p)) os) \<noteq> Some VALID \<longrightarrow>
      verdictCode (checkEndorsementPolicy (Some (jsonOfPolicy p)) os)
        = Some ENDORSEMENT_POLICY_FAILURE)
   \<and> (resolvePolicy e ws tx = Inr (Some policy) \<longrightarrow>
      (\<forall>en \<in> set (endorsements tx). valid (endorsementVerifies e msp tx en)) \<longrightarrow>
      validateEndorsements e msp ws tx
        = checkEndorsementPolicy policy (remdups (map endorserOrgId (endorsements tx))))
   \<and> (valid (clientSignatureCheck e msp tx) \<longrightarrow>
      validateEndorsements e msp ws tx = Inr x \<longrightarrow> code x \<noteq> VALID \<longrightarrow>
      validateTransaction e msp ws tx bn tn = Inr x)
   \<and> (valid (clientSignatureCheck e msp tx) \<longrightarrow>
      resolvePolicy e ws tx = Inr (Some (Some (jsonOfPolicy p))) \<longrightarrow>
      policy_type p \<in> {''ANY'', ''ALL'', ''MAJORITY''} \<longrightarrow>
      (\<forall>en \<in> set (endorsements tx). valid (endorsementVerifies e msp tx en)) \<longrightarrow>
      checkEndorsementPolicy (Some (jsonOfPolicy p))
        (remdups (map endorserOrgId (endorsements tx))) = Inr x \<longrightarrow>
      code x \<noteq> VALID \<longrightarrow>
      validateTransaction e msp ws tx bn tn = Inr x \<and> code x = ENDORSEMENT_POLICY_FAILURE)"
proof -
  have any: "policy_type p = ''ANY'' \<longrightarrow>
      (verdictCode (checkEndorsementPolicy (Some (jsonOfPolicy p)) os) = Some VALID)
        = (\<exists>org \<in> set (orgs p). org \<in> set os)"
    by (simp add: checkEndorsementPolicy_typed)
  have all: "policy_type p = ''ALL'' \<longrightarrow>
      (verdictCode (checkEndorsementPolicy (Some (jsonOfPolicy p)) os) = Some VALID)
        = (\<forall>org \<in> set (orgs p). org \<in> set os)"
    by (simp add: checkEndorsementPolicy_typed)
  have maj: "policy_type p = ''MAJORITY'' \<longrightarrow>
      (verdictCode (checkEndorsementPolicy (Some (jsonOfPolicy p)) os) = Some VALID)
        = (length (filter (\<lambda>org. org \<in> set os) (orgs p)) \<ge> length (orgs p) div 2 + 1)"
    by (simp add: checkEndorsementPolicy_typed)
  have majd: "policy_type p = ''MAJORITY'' \<longrightarrow> distinct (orgs p) \<longrightarrow>
      (verdictCode (checkEndorsementPolicy (Some (jsonOfPolicy p)) os) = Some VALID)
        = (card (set (orgs p) \<inter> set os) \<ge> card (set (orgs p)) div 2 + 1)"
    using maj by (simp add: length_filter_distinct distinct_card)
  have fail: "policy_type p \<in> {''ANY'', ''ALL'', ''MAJORITY''} \<longrightarrow>
      verdictCode (checkEndorsementPolicy (Some (jsonOfPolicy p)) os) \<noteq> Some VALID \<longrightarrow>
      verdictCode (checkEndorsementPolicy (Some (jsonOfPolicy p)) os)
        = Some ENDORSEMENT_POLICY_FAILURE"
    by (simp add: checkEndorsementPolicy_typed)
  have link: "resolvePolicy e ws tx = Inr (Some policy) \<longrightarrow>
      (\<forall>en \<in> set (endorsements tx). valid (endorsementVerifies e msp tx en)) \<longrightarrow>
      validateEndorsements e msp ws tx
        = checkEndorsementPolicy policy (remdups (map endorserOrgId (endorsements tx)))"
    by (simp add: validateEndorsements_char endorsementVerdict_verified
        find_None_all_verify [symmetric])
  have tx: "valid (clientSignatureCheck e msp tx) \<longrightarrow>
      validateEndorsements e msp ws tx = Inr x \<longrightarrow> code x \<noteq> VALID \<longrightarrow>
      validateTransaction e msp ws tx bn tn = Inr x"
    by (simp add: validateTransaction_char)
  have marked: "valid (clientSignatureCheck e msp tx) \<longrightarrow>
      resolvePolicy e ws tx = Inr (Some (Some (jsonOfPolicy p))) \<longrightarrow>
      policy_type p \<in> {''ANY'', ''ALL'', ''MAJORITY''} \<longrightarrow>
      (\<forall>en \<in> set (endorsements tx). valid (endorsementVerifies e msp tx en)) \<longrightarrow>
      checkEndorsementPolicy (Some (jsonOfPolicy p))
        (remdups (map endorserOrgId (endorsements tx))) = Inr x \<longrightarrow>
      code x \<noteq> VALID \<longrightarrow>
      validateTransaction e msp ws tx bn tn = Inr x \<and> code x = ENDORSEMENT_POLICY_FAILURE"
  proof (intro impI)
    assume client: "valid (clientSignatureCheck e msp tx)"
      and resolved: "resolvePolicy e ws tx = Inr (Some (Some (jsonOfPolicy p)))"
      and known: "policy_type p \<in> {''ANY'', ''ALL'', ''MAJORITY''}"
      and verified: "\<forall>en \<in> set (endorsements tx). valid (endorsementVerifies e msp tx en)"
      and verdict: "checkEndorsementPolicy (Some (jsonOfPolicy p))
        (remdups (map endorserOrgId (endorsements tx))) = Inr x"
      and failed: "code x \<noteq> VALID"
    from resolved verified verdict have "validateEndorsements e msp ws tx = Inr x"
      by (simp add: validateEndorsements_char endorsementVerdict_verified
          find_None_all_verify [symmetric])
    with client failed have one: "validateTransaction e msp ws tx bn tn = Inr x"
      by (simp add: validateTransaction_char)
    from verdict known failed have two: "code x = ENDORSEMENT_POLICY_FAILURE"
      by (auto simp add: checkEndorsementPolicy_typed split: if_splits)
    from one two show "validateTransaction e msp ws tx bn tn = Inr x
        \<and> code x = ENDORSEMENT_POLICY_FAILURE"
      by (rule conjI)
  qed
  from any all maj majd fail link tx marked show ?thesis
    by (intro conjI)
qed

theorem checkEndorsementPolicy_semantics_witness:
  "verdictCode (checkEndorsementPolicy
       (Some (jsonOfPolicy \<lparr>policy_type = ''MAJORITY'', orgs = [''Org1'', ''Org2'', ''Org3'']\<rparr>))
       [''Org3'', ''Org1'']) = Some VALID
   \<and> verdictCode (checkEndorsementPolicy
       (Some (jsonOfPolicy
          \<lparr>policy_type = ''MAJORITY'', orgs = [''Org1'', ''Org2'', ''Org3'', ''Org4'']\<rparr>))
       [''Org1'', ''Org2'']) = Some ENDORSEMENT_POLICY_FAILURE
   \<and> verdictCode (checkEndorsementPolicy
       (Some (jsonOfPolicy \<lparr>policy_type = ''ANY'', orgs = [''Org1'', ''Org2'']\<rparr>))
       [''Org2'']) = Some VALID
   \<and> validateTransaction toyEnv toyMSP emptyStore deployAll 0 0
       = Inr \<lparr>code = ENDORSEMENT_POLICY_FAILURE, message = Some ''ALL policy not satisfied''\<rparr>"
proof -
  have verified: "\<forall>en \<in> set (endorsements deployAll).
      valid (endorsementVerifies toyEnv toyMSP deployAll en)"
    by (simp add: endorsements_deployAll endorsementVerifies_Org1)
  have known: "policy_type allPolicy \<in> {''ANY'', ''ALL'', ''MAJORITY''}"
    by (simp add: allPolicy_def)
  have evaluated: "checkEndorsementPolicy (Some (jsonOfPolicy allPolicy))
        (remdups (map endorserOrgId (endorsements deployAll)))
      = Inr \<lparr>code = ENDORSEMENT_POLICY_FAILURE, message = Some ''ALL policy not satisfied''\<rparr>"
    by (simp add: endorsements_deployAll endorserOrgId_Org1 checkEndorsementPolicy_allPolicy)
  from checkEndorsementPolicy_semantics
         [of "\<lparr>policy_type = ''MAJORITY'', orgs = [''Org1'', ''Org2'', ''Org3'']\<rparr>"
             "[''Org3'', ''Org1'']"]
  have one: "verdictCode (checkEndorsementPolicy
       (Some (jsonOfPolicy \<lparr>policy_type = ''MAJORITY'', orgs = [''Org1'', ''Org2'', ''Org3'']\<rparr>))
       [''Org3'', ''Org1'']) = Some VALID"
    by simp
  from checkEndorsementPolicy_semantics
         [of "\<lparr>policy_type = ''MAJORITY'', orgs = [''Org1'', ''Org2'', ''Org3'', ''Org4'']\<rparr>"
             "[''Org1'', ''Org2'']"]
  have two: "verdictCode (checkEndorsementPolicy
       (Some (jsonOfPolicy
          \<lparr>policy_type = ''MAJORITY'', orgs = [''Org1'', ''Org2'', ''Org3'', ''Org4'']\<rparr>))
       [''Org1'', ''Org2'']) = Some ENDORSEMENT_POLICY_FAILURE"
    by simp
  from checkEndorsementPolicy_semantics
         [of "\<lparr>policy_type = ''ANY'', orgs = [''Org1'', ''Org2'']\<rparr>" "[''Org2'']"]
  have three: "verdictCode (checkEndorsementPolicy
       (Some (jsonOfPolicy \<lparr>policy_type = ''ANY'', orgs = [''Org1'', ''Org2'']\<rparr>))
       [''Org2'']) = Some VALID"
    by simp
  from checkEndorsementPolicy_semantics
         [of allPolicy "[]" toyEnv emptyStore deployAll "Some (jsonOfPolicy allPolicy)" toyMSP
             "\<lparr>code = ENDORSEMENT_POLICY_FAILURE, message = Some ''ALL policy not satisfied''\<rparr>"
             0 0]
       verified known evaluated
  have four: "validateTransaction toyEnv toyMSP emptyStore deployAll 0 0
       = Inr \<lparr>code = ENDORSEMENT_POLICY_FAILURE, message = Some ''ALL policy not satisfied''\<rparr>"
    by (simp add: clientSignatureCheck_deployAll resolvePolicy_deployAll)
  from one two three four show ?thesis
    by (intro conjI)
qed

section \<open>The example block\<close>

lemma basicMetadataText_nonempty: "basicMetadataText \<noteq> []"
  by (simp add: basicMetadataText_def JSON_stringify_def jsonOfChaincodeMetadata_def)

lemma storeChaincodeMetadata_basic:
  "storeChaincodeMetadata toyEnv i ws ''basic'' ''1.0'' basicPolicy
     = setState ws (chaincodeKey ''basic'') basicMetadataText"
  by (simp add: storeChaincodeMetadata_def basicMetadataText_def basicMetadata_def toyEnv_def)

lemma deployedStore_eq:
  "deployedStore =
     setState (applyRWSet emptyStore (rwSet (deployBasic [endorsementOrg1])) 0 0)
       (chaincodeKey ''basic'') basicMetadataText"
  by (simp add: deployedStore_def applyValidTransaction_def Let_def deployBasic_def
      defaultPolicy_def storeChaincodeMetadata_basic)

lemma chaincodeKey_basic_neq:
  "chaincodeKey ''basic'' \<noteq> ''balance:Alice''"
  "chaincodeKey ''basic'' \<noteq> ''balance:Bob''"
  by (simp_all add: chaincodeKey_def)

lemma getState_fundedStore_basic:
  "getState fundedStore (chaincodeKey ''basic'') = Some basicMetadataText"
  by (simp add: fundedStore_def deployedStore_eq applyRWSet_def chaincodeKey_basic_neq)

lemma getVersion_fundedStore:
  "getVersion fundedStore ''balance:Alice'' = Some \<lparr>blockNum = 2, txNum = 0\<rparr>"
  "getVersion fundedStore ''balance:Bob'' = Some \<lparr>blockNum = 2, txNum = 0\<rparr>"
  by (simp_all add: fundedStore_def applyRWSet_def)

lemma getState_afterTransfer_basic:
  "getState afterTransfer (chaincodeKey ''basic'') = Some basicMetadataText"
  by (simp add: afterTransfer_def applyRWSet_def transferRWSet_def getState_fundedStore_basic
      chaincodeKey_basic_neq)

lemma getVersion_afterTransfer:
  "getVersion afterTransfer ''balance:Alice'' = Some \<lparr>blockNum = 3, txNum = 0\<rparr>"
  "getVersion afterTransfer ''balance:Bob'' = Some \<lparr>blockNum = 3, txNum = 0\<rparr>"
  by (simp_all add: afterTransfer_def applyRWSet_def transferRWSet_def)

lemma getState_afterTransfer:
  "getState afterTransfer ''balance:Alice'' = Some ''300''"
  "getState afterTransfer ''balance:Bob'' = Some ''200''"
  by (simp_all add: afterTransfer_def applyRWSet_def transferRWSet_def)

lemma validateReadSet_transfer:
  "validateReadSet fundedStore (reads transferRWSet)"
  "\<not> validateReadSet afterTransfer (reads transferRWSet)"
  by (simp_all add: transferRWSet_def getVersion_fundedStore getVersion_afterTransfer Let_def)

lemma JSON_parse_toyEnv_basic:
  "JSON_parse toyEnv basicMetadataText = Inr (jsonOfChaincodeMetadata basicMetadata)"
  by (simp add: toyEnv_def)

lemma resolvePolicy_basic:
  assumes "getState ws (chaincodeKey ''basic'') = Some basicMetadataText"
    and "payload_type (payload tx) = INVOKE_CHAINCODE"
    and "chaincodeId (payload tx) = ''basic''"
  shows "resolvePolicy toyEnv ws tx = Inr (Some (Some (jsonOfPolicy basicPolicy)))"
proof -
  have "getChaincodeMetadata toyEnv ws ''basic'' = Inr (jsonOfChaincodeMetadata basicMetadata)"
    using assms(1)
    by (simp add: getChaincodeMetadata_def basicMetadataText_nonempty JSON_parse_toyEnv_basic)
  moreover have "\<not> falsy (jsonOfChaincodeMetadata basicMetadata)"
    by (simp add: falsy_def jsonOfChaincodeMetadata_def)
  moreover have "getProperty (Some (jsonOfChaincodeMetadata basicMetadata)) ''endorsementPolicy''
      = Inr (Some (jsonOfPolicy basicPolicy))"
    by (simp add: getProperty_def jsonOfChaincodeMetadata_def basicMetadata_def)
  ultimately show ?thesis
    using assms(2,3) by (simp add: resolvePolicy_def)
qed

lemma validateEndorsements_basic:
  assumes "getState ws (chaincodeKey ''basic'') = Some basicMetadataText"
    and "payload_type (payload tx) = INVOKE_CHAINCODE"
    and "chaincodeId (payload tx) = ''basic''"
    and "endorsements tx = [endorsementOrg1]"
  shows "validateEndorsements toyEnv toyMSP ws tx = Inr \<lparr>code = VALID, message = None\<rparr>"
  using assms(4)
  by (simp add: validateEndorsements_char resolvePolicy_basic [OF assms(1,2,3)]
      endorsementVerdict_def endorsementVerifies_Org1 endorserOrgId_Org1
      checkEndorsementPolicy_basicPolicy)

lemma validateEndorsements_transfer:
  assumes "getState ws (chaincodeKey ''basic'') = Some basicMetadataText"
  shows "validateEndorsements toyEnv toyMSP ws (transfer tid sig)
     = Inr \<lparr>code = VALID, message = None\<rparr>"
  by (rule validateEndorsements_basic [OF assms]) (simp_all add: transfer_def)

lemma clientSignatureCheck_transfer:
  "valid (clientSignatureCheck toyEnv toyMSP (transfer tid ''signed-with:pk-Org1Client''))"
  "clientSignatureCheck toyEnv toyMSP (transfer tid ''forged'')
     = \<lparr>valid = False, check_identity = None,
        check_error = Some ''Invalid signature for Org1Client''\<rparr>"
  by (simp_all add: clientSignatureCheck_def verifySignature_def getIdentity_def toyMSP_def
      toyEnv_def transfer_def)

lemma rwSet_transfer: "rwSet (transfer tid sig) = transferRWSet"
  by (simp add: transfer_def)

lemma validateTransaction_transfer:
  "validateTransaction toyEnv toyMSP fundedStore (transfer tid ''signed-with:pk-Org1Client'') bn tn
     = Inr \<lparr>code = VALID, message = None\<rparr>"
  "validateTransaction toyEnv toyMSP afterTransfer (transfer tid ''signed-with:pk-Org1Client'') bn tn
     = Inr \<lparr>code = MVCC_READ_CONFLICT, message = Some ''Read set validation failed''\<rparr>"
  "validateTransaction toyEnv toyMSP ws (transfer tid ''forged'') bn tn
     = Inr \<lparr>code = MSP_VALIDATION_FAILED, message = Some ''Invalid signature for Org1Client''\<rparr>"
  by (simp_all add: validateTransaction_char clientSignatureCheck_transfer
      validateEndorsements_transfer getState_fundedStore_basic getState_afterTransfer_basic
      rwSet_transfer validateReadSet_transfer)

lemma applyValidTransaction_transfer:
  "applyValidTransaction toyEnv fundedStore (transfer tid sig) 3 0 = afterTransfer"
  by (simp add: applyValidTransaction_def Let_def afterTransfer_def transfer_def)

lemma txId_transfer: "txId (transfer tid sig) = tid"
  by (simp add: transfer_def)

lemma commitLoop_block3:
  "commitLoop toyEnv toyMSP 3 (transactions block3) 0 ([], fundedStore)
     = Inr (block3Info, afterTransfer)"
  by (simp add: block3_def commitLoop_Cons validateTransaction_transfer validationEntry_def
      applyValidTransaction_transfer txId_transfer block3Info_def)

lemma commitBlock_block3:
  "\<exists>ledger. commitBlock toyEnv toyMSP committer0 block3
       = Inr (block3Committed, \<lparr>ledgerStore = ledger, worldStateStore = afterTransfer\<rparr>)"
proof -
  from storeBlock_char [of toyEnv "ledgerStore committer0" block3Committed]
  obtain ledger where "storeBlock toyEnv (ledgerStore committer0) block3Committed = Inr ledger"
    by blast
  moreover have "number (header block3) = 3"
    by (simp add: block3_def)
  moreover have "worldStateStore committer0 = fundedStore"
    by (simp add: committer0_def)
  ultimately have "commitBlock toyEnv toyMSP committer0 block3
       = Inr (block3Committed, \<lparr>ledgerStore = ledger, worldStateStore = afterTransfer\<rparr>)"
    by (simp add: commitBlock_def commitLoop_block3 Let_def block3Committed_def)
  then show ?thesis by blast
qed

lemma transactions_block3:
  "length (transactions block3) = 3"
  "transactions block3 ! 0 = transfer ''tx-a'' ''signed-with:pk-Org1Client''"
  "transactions block3 ! Suc 0 = transfer ''tx-b'' ''signed-with:pk-Org1Client''"
  "number (header block3) = 3"
  by (simp_all add: block3_def)

lemma block3Info_codes:
  "info_code (block3Info ! 0) = VALID"
  "info_code (block3Info ! Suc 0) = MVCC_READ_CONFLICT"
  by (simp_all add: block3Info_def)

section \<open>Block commit: validation in block order\<close>

lemma getVersion_storeChaincodeMetadata [simp]:
  "getVersion (storeChaincodeMetadata e i ws cc ver p) k = getVersion ws k"
  by (simp add: storeChaincodeMetadata_def Let_def)

lemma getVersion_applyValidTransaction:
  "w \<in> set (writes (rwSet tx)) \<Longrightarrow>
   getVersion (applyValidTransaction e ws tx bn i) (write_key w)
     = Some \<lparr>blockNum = bn, txNum = int i\<rparr>"
  by (simp add: applyValidTransaction_def Let_def applyRWSet_def applyWrites_stamps)

lemma commitBlock_char:
  assumes "commitBlock e msp c block = Inr (block', c')"
  shows "\<exists>info. commitLoop e msp (number (header block)) (transactions block) 0
              ([], worldStateStore c) = Inr (info, worldStateStore c')
           \<and> block' = block\<lparr>metadata := (metadata block)\<lparr>validationInfo := Some info\<rparr>\<rparr>
           \<and> storeBlock e (ledgerStore c) block' = Inr (ledgerStore c')"
  using assms
  by (auto simp add: commitBlock_def bindE_eq_Inr Let_def split: prod.splits)

text \<open>
  C3. When \<^verbatim>\<open>commitBlock\<close> returns, the entry recorded for the transaction of index
  \<open>k\<close> is the result of \<^verbatim>\<open>validateTransaction\<close> in the world state
  \<open>worldStateBefore \<dots> k\<close>: the committer's world state with every transaction of index
  below \<open>k\<close> whose code is \<^verbatim>\<open>VALID\<close> applied, in block order. In particular the read
  set of a \<^verbatim>\<open>VALID\<close> transaction validates in that state, and the read set of a
  transaction marked \<^verbatim>\<open>MVCC_READ_CONFLICT\<close> does not. A \<^verbatim>\<open>VALID\<close> transaction is
  then applied with its index as \<open>txNum\<close>: every key it writes gets the version
  \<open>(block number, k)\<close>. The world state after the commit is the one after the last
  transaction.
\<close>

theorem commitBlock_validates_in_order:
  assumes commit: "commitBlock e msp c block = Inr (block', c')"
    and k: "k < length (transactions block)"
  shows "\<exists>info. validationInfo (metadata block') = Some info
     \<and> length info = length (transactions block)
     \<and> validateTransaction e msp
          (worldStateBefore e (number (header block)) (transactions block) (map info_code info) k
             (worldStateStore c))
          (transactions block ! k) (number (header block)) (int k)
        = Inr \<lparr>code = info_code (info ! k), message = info_message (info ! k)\<rparr>
     \<and> (info_code (info ! k) = VALID \<longrightarrow>
          validateReadSet
            (worldStateBefore e (number (header block)) (transactions block) (map info_code info) k
               (worldStateStore c))
            (reads (rwSet (transactions block ! k))))
     \<and> (info_code (info ! k) = MVCC_READ_CONFLICT \<longrightarrow>
          \<not> validateReadSet
            (worldStateBefore e (number (header block)) (transactions block) (map info_code info) k
               (worldStateStore c))
            (reads (rwSet (transactions block ! k))))
     \<and> worldStateBefore e (number (header block)) (transactions block) (map info_code info) (Suc k)
          (worldStateStore c)
        = (if info_code (info ! k) = VALID
           then applyValidTransaction e
                  (worldStateBefore e (number (header block)) (transactions block)
                     (map info_code info) k (worldStateStore c))
                  (transactions block ! k) (number (header block)) k
           else worldStateBefore e (number (header block)) (transactions block)
                  (map info_code info) k (worldStateStore c))
     \<and> (info_code (info ! k) = VALID \<longrightarrow>
          (\<forall>w \<in> set (writes (rwSet (transactions block ! k))).
             getVersion
               (worldStateBefore e (number (header block)) (transactions block)
                  (map info_code info) (Suc k) (worldStateStore c))
               (write_key w)
             = Some \<lparr>blockNum = number (header block), txNum = int k\<rparr>))
     \<and> worldStateStore c'
        = worldStateBefore e (number (header block)) (transactions block) (map info_code info)
            (length (transactions block)) (worldStateStore c)"
proof -
  let ?bn = "number (header block)" and ?txs = "transactions block" and ?ws = "worldStateStore c"
  from commitBlock_char [OF commit] obtain info where
    loop: "commitLoop e msp ?bn ?txs 0 ([], ?ws) = Inr (info, worldStateStore c')" and
    blk: "block' = block\<lparr>metadata := (metadata block)\<lparr>validationInfo := Some info\<rparr>\<rparr>"
    by blast
  from commitLoop_char [OF loop] have
    len: "length info = length ?txs" and
    fin: "worldStateStore c' = applyValid e ?bn 0 (zip ?txs (map info_code info)) ?ws" and
    steps: "\<forall>k < length ?txs.
           validateTransaction e msp
             (applyValid e ?bn 0 (zip (take k ?txs) (map info_code (take k info))) ?ws)
             (?txs ! k) ?bn (int (0 + k))
           = Inr \<lparr>code = info_code (info ! k), message = info_message (info ! k)\<rparr>
           \<and> info_txId (info ! k) = txId (?txs ! k)"
    by auto
  let ?before = "worldStateBefore e ?bn ?txs (map info_code info)"
  have v: "validateTransaction e msp (?before k ?ws) (?txs ! k) ?bn (int k)
        = Inr \<lparr>code = info_code (info ! k), message = info_message (info ! k)\<rparr>"
    using steps k by (simp add: worldStateBefore_def take_map)
  from validateTransaction_VALID [OF v] have
    mvcc: "(info_code (info ! k) = VALID \<longrightarrow> validateReadSet (?before k ?ws) (reads (rwSet (?txs ! k))))
       \<and> (info_code (info ! k) = MVCC_READ_CONFLICT \<longrightarrow>
            \<not> validateReadSet (?before k ?ws) (reads (rwSet (?txs ! k))))"
    by simp
  have step: "?before (Suc k) ?ws =
      (if info_code (info ! k) = VALID
       then applyValidTransaction e (?before k ?ws) (?txs ! k) ?bn k else ?before k ?ws)"
    using worldStateBefore_Suc [of k ?txs "map info_code info" e ?bn ?ws] k len by simp
  have stamp: "info_code (info ! k) = VALID \<longrightarrow>
      (\<forall>w \<in> set (writes (rwSet (?txs ! k))).
         getVersion (?before (Suc k) ?ws) (write_key w) = Some \<lparr>blockNum = ?bn, txNum = int k\<rparr>)"
    unfolding step by (simp add: getVersion_applyValidTransaction)
  have final: "worldStateStore c' = ?before (length ?txs) ?ws"
    using fin len by (simp add: worldStateBefore_all)
  have vi: "validationInfo (metadata block') = Some info"
    unfolding blk by simp
  from vi len v mvcc step stamp final show ?thesis
    by blast
qed

theorem commitBlock_validates_in_order_witness:
  "\<exists>block' c'. commitBlock toyEnv toyMSP committer0 block3 = Inr (block', c')
     \<and> validationInfo (metadata block') = Some block3Info
     \<and> worldStateBefore toyEnv 3 (transactions block3) (map info_code block3Info) 1 fundedStore
         = afterTransfer
     \<and> \<not> validateReadSet afterTransfer (reads transferRWSet)
     \<and> getVersion afterTransfer ''balance:Alice'' = Some \<lparr>blockNum = 3, txNum = 0\<rparr>"
proof -
  from commitBlock_block3 obtain ledger where
    commit: "commitBlock toyEnv toyMSP committer0 block3
       = Inr (block3Committed, \<lparr>ledgerStore = ledger, worldStateStore = afterTransfer\<rparr>)"
    by blast
  have vi: "validationInfo (metadata block3Committed) = Some block3Info"
    by (simp add: block3Committed_def)
  have ws: "worldStateStore committer0 = fundedStore"
    by (simp add: committer0_def)
  have alice: "\<lparr>write_key = ''balance:Alice'', write_value = Some ''300''\<rparr>
      \<in> set (writes (rwSet (transfer ''tx-a'' ''signed-with:pk-Org1Client'')))"
    by (simp add: rwSet_transfer transferRWSet_def)
  from commitBlock_validates_in_order [OF commit, of 0] vi ws alice
  have before1: "worldStateBefore toyEnv 3 (transactions block3) (map info_code block3Info) 1
      fundedStore = afterTransfer"
    and stamp: "getVersion
      (worldStateBefore toyEnv 3 (transactions block3) (map info_code block3Info) 1 fundedStore)
      ''balance:Alice'' = Some \<lparr>blockNum = 3, txNum = 0\<rparr>"
    by (auto simp add: transactions_block3 block3Info_codes applyValidTransaction_transfer)
  from commitBlock_validates_in_order [OF commit, of 1] vi ws
  have "\<not> validateReadSet
      (worldStateBefore toyEnv 3 (transactions block3) (map info_code block3Info) 1 fundedStore)
      (reads transferRWSet)"
    by (auto simp add: transactions_block3 block3Info_codes rwSet_transfer)
  with before1 stamp commit vi show ?thesis
    by auto
qed

section \<open>Block commit: codes, exceptions and the ledger\<close>

text \<open>
  A code other than \<^verbatim>\<open>VALID\<close> does not end the loop. When \<^verbatim>\<open>commitBlock\<close> returns,
  there is one entry for each transaction, in order; a transaction whose code is not
  \<^verbatim>\<open>VALID\<close> leaves the world state as it was; the block is stored under its number.
\<close>

lemma commitBlock_returned:
  assumes commit: "commitBlock e msp c block = Inr (block', c')"
  shows "\<exists>info.
     block' = block\<lparr>metadata := (metadata block)\<lparr>validationInfo := Some info\<rparr>\<rparr>
     \<and> map info_txId info = map txId (transactions block)
     \<and> (\<forall>k < length (transactions block).
          worldStateBefore e (number (header block)) (transactions block) (map info_code info)
            (Suc k) (worldStateStore c)
          = (if info_code (info ! k) = VALID
             then applyValidTransaction e
                    (worldStateBefore e (number (header block)) (transactions block)
                       (map info_code info) k (worldStateStore c))
                    (transactions block ! k) (number (header block)) k
             else worldStateBefore e (number (header block)) (transactions block)
                    (map info_code info) k (worldStateStore c)))
     \<and> worldStateStore c'
         = worldStateBefore e (number (header block)) (transactions block) (map info_code info)
             (length (transactions block)) (worldStateStore c)
     \<and> getBlock (ledgerStore c') (number (header block)) = Some block'
     \<and> getLatestBlockNumber (ledgerStore c') = number (header block)"
proof -
  let ?bn = "number (header block)" and ?txs = "transactions block" and ?ws = "worldStateStore c"
  from commitBlock_char [OF commit] obtain info where
    loop: "commitLoop e msp ?bn ?txs 0 ([], ?ws) = Inr (info, worldStateStore c')" and
    blk: "block' = block\<lparr>metadata := (metadata block)\<lparr>validationInfo := Some info\<rparr>\<rparr>" and
    store: "storeBlock e (ledgerStore c) block' = Inr (ledgerStore c')"
    by blast
  have bn: "number (header block') = ?bn"
    unfolding blk by simp
  from storeBlock_char [of e "ledgerStore c" block'] store have
    got: "getBlock (ledgerStore c') ?bn = Some block'" and
    latest: "getLatestBlockNumber (ledgerStore c') = ?bn"
    by (auto simp add: bn)
  from commitLoop_char [OF loop] have
    len: "length info = length ?txs" and
    fin: "worldStateStore c' = applyValid e ?bn 0 (zip ?txs (map info_code info)) ?ws" and
    ids: "\<forall>k < length ?txs. info_txId (info ! k) = txId (?txs ! k)"
    by auto
  have txids: "map info_txId info = map txId ?txs"
    using len ids by (simp add: list_eq_iff_nth_eq)
  have final: "worldStateStore c'
      = worldStateBefore e ?bn ?txs (map info_code info) (length ?txs) ?ws"
    using fin len by (simp add: worldStateBefore_all)
  have steps: "\<forall>k < length ?txs.
      worldStateBefore e ?bn ?txs (map info_code info) (Suc k) ?ws
      = (if info_code (info ! k) = VALID
         then applyValidTransaction e (worldStateBefore e ?bn ?txs (map info_code info) k ?ws)
                (?txs ! k) ?bn k
         else worldStateBefore e ?bn ?txs (map info_code info) k ?ws)"
    using len by (simp add: worldStateBefore_Suc)
  from blk txids steps final got latest show ?thesis
    by blast
qed

text \<open>
  \<^verbatim>\<open>commitBlock\<close> catches nothing: it ends without storing the block exactly when the
  validation of one of the transactions throws.
\<close>

lemma commitLoop_threw:
  "commitLoop e msp bn txs i st = Inl err \<Longrightarrow>
   \<exists>ws tx k. tx \<in> set txs \<and> validateTransaction e msp ws tx bn k = Inl err"
proof (induction txs arbitrary: i st)
  case Nil
  then show ?case by (cases st) simp
next
  case (Cons tx rest)
  obtain info ws where st: "st = (info, ws)" by (cases st)
  show ?case
  proof (cases "validateTransaction e msp ws tx bn (int i)")
    case (Inl err')
    with Cons.prems have "validateTransaction e msp ws tx bn (int i) = Inl err"
      unfolding st commitLoop_Cons by simp
    then show ?thesis by auto
  next
    case (Inr v)
    with Cons.prems have "commitLoop e msp bn rest (Suc i)
        (info @ [validationEntry tx v],
         if code v = VALID then applyValidTransaction e ws tx bn i else ws) = Inl err"
      unfolding st commitLoop_Cons by simp
    from Cons.IH [OF this] show ?thesis by auto
  qed
qed

lemma commitBlock_threw:
  assumes "commitBlock e msp c block = Inl err"
  shows "\<exists>ws tx k. tx \<in> set (transactions block)
           \<and> validateTransaction e msp ws tx (number (header block)) k = Inl err"
proof (cases "commitLoop e msp (number (header block)) (transactions block) 0
                ([], worldStateStore c)")
  case (Inl err')
  with assms have "err' = err"
    by (simp add: commitBlock_def)
  with Inl have "commitLoop e msp (number (header block)) (transactions block) 0
      ([], worldStateStore c) = Inl err"
    by simp
  then show ?thesis
    by (rule commitLoop_threw)
next
  case (Inr r)
  obtain info ws where r: "r = (info, ws)" by (cases r)
  from storeBlock_char
         [of e "ledgerStore c" "block\<lparr>metadata := (metadata block)\<lparr>validationInfo := Some info\<rparr>\<rparr>"]
  obtain ledger where "storeBlock e (ledgerStore c)
      (block\<lparr>metadata := (metadata block)\<lparr>validationInfo := Some info\<rparr>\<rparr>) = Inr ledger"
    by blast
  with Inr r assms show ?thesis
    by (simp add: commitBlock_def Let_def)
qed

text \<open>The block whose first transaction overwrites the metadata of its chaincode.\<close>

lemma basicMetadataText_neq:
  "''{}'' \<noteq> basicMetadataText"
  "''not json'' \<noteq> basicMetadataText"
  by (simp_all add: basicMetadataText_def JSON_stringify_def jsonOfChaincodeMetadata_def)

lemma JSON_parse_toyEnv_other:
  "JSON_parse toyEnv ''{}'' = Inr (JObj [])"
  "JSON_parse toyEnv ''not json'' = Inl (SyntaxError ''Unexpected token'')"
  by (simp_all add: toyEnv_def basicMetadataText_neq)

lemma validateTransaction_poison:
  "validateTransaction toyEnv toyMSP fundedStore (poison str) bn tn
     = Inr \<lparr>code = VALID, message = None\<rparr>"
proof -
  have "valid (clientSignatureCheck toyEnv toyMSP (poison str))"
    by (simp add: clientSignatureCheck_def verifySignature_def getIdentity_def toyMSP_def
        toyEnv_def poison_def)
  moreover have "validateEndorsements toyEnv toyMSP fundedStore (poison str)
      = Inr \<lparr>code = VALID, message = None\<rparr>"
    by (rule validateEndorsements_basic [OF getState_fundedStore_basic])
       (simp_all add: poison_def)
  moreover have "validateReadSet fundedStore (reads (rwSet (poison str)))"
    by (simp add: poison_def)
  ultimately show ?thesis
    by (simp add: validateTransaction_char)
qed

lemma getState_poisonedStore:
  "getState (poisonedStore str) (chaincodeKey ''basic'') = Some str"
  by (simp add: poisonedStore_def applyValidTransaction_def Let_def poison_def applyRWSet_def
      chaincodeKey_def)

lemma clientSignatureCheck_transfer_b:
  "valid (clientSignatureCheck toyEnv toyMSP (transfer ''tx-b'' ''signed-with:pk-Org1Client''))"
  by (rule clientSignatureCheck_transfer)

lemma validateEndorsements_after_poison:
  "str \<noteq> [] \<Longrightarrow> JSON_parse toyEnv str = Inl err \<Longrightarrow>
   validateEndorsements toyEnv toyMSP (poisonedStore str) (transfer tid sig) = Inl err"
  "str \<noteq> [] \<Longrightarrow> JSON_parse toyEnv str = Inr (JObj []) \<Longrightarrow>
   validateEndorsements toyEnv toyMSP (poisonedStore str) (transfer tid sig)
     = Inl (TypeError ''Cannot read properties of undefined (reading type)'')"
proof -
  have inv: "payload_type (payload (transfer tid sig)) \<noteq> DEPLOY_CHAINCODE"
      "chaincodeId (payload (transfer tid sig)) = ''basic''"
      "endorsements (transfer tid sig) = [endorsementOrg1]"
    by (simp_all add: transfer_def)
  show "str \<noteq> [] \<Longrightarrow> JSON_parse toyEnv str = Inl err \<Longrightarrow>
     validateEndorsements toyEnv toyMSP (poisonedStore str) (transfer tid sig) = Inl err"
    by (simp add: validateEndorsements_char resolvePolicy_def inv getChaincodeMetadata_def
        getState_poisonedStore)
  show "str \<noteq> [] \<Longrightarrow> JSON_parse toyEnv str = Inr (JObj []) \<Longrightarrow>
     validateEndorsements toyEnv toyMSP (poisonedStore str) (transfer tid sig)
       = Inl (TypeError ''Cannot read properties of undefined (reading type)'')"
    by (simp add: validateEndorsements_char resolvePolicy_def inv getChaincodeMetadata_def
        getState_poisonedStore falsy_def getProperty_def endorsementVerdict_def
        endorsementVerifies_Org1 endorserOrgId_Org1 checkEndorsementPolicy_def)
qed

lemma validateTransaction_after_poison:
  "validateTransaction toyEnv toyMSP (poisonedStore ''{}'')
       (transfer ''tx-b'' ''signed-with:pk-Org1Client'') bn tn
     = Inl (TypeError ''Cannot read properties of undefined (reading type)'')"
  "validateTransaction toyEnv toyMSP (poisonedStore ''not json'')
       (transfer ''tx-b'' ''signed-with:pk-Org1Client'') bn tn
     = Inl (SyntaxError ''Unexpected token'')"
  by (simp_all add: validateTransaction_char clientSignatureCheck_transfer_b
      validateEndorsements_after_poison JSON_parse_toyEnv_other)

lemma commitLoop_poisonedBlock:
  "validateTransaction toyEnv toyMSP (poisonedStore str)
       (transfer ''tx-b'' ''signed-with:pk-Org1Client'') 3 1 = Inl err \<Longrightarrow>
   commitBlock toyEnv toyMSP committer0 (poisonedBlock str) = Inl err"
proof -
  assume threw: "validateTransaction toyEnv toyMSP (poisonedStore str)
       (transfer ''tx-b'' ''signed-with:pk-Org1Client'') 3 1 = Inl err"
  have "commitLoop toyEnv toyMSP 3
          [poison str, transfer ''tx-b'' ''signed-with:pk-Org1Client''] 0 ([], fundedStore)
      = Inl err"
    unfolding commitLoop_Cons
    by (simp add: validateTransaction_poison poisonedStore_def [symmetric] threw)
  then show ?thesis
    by (simp add: commitBlock_def poisonedBlock_def committer0_def)
qed

text \<open>
  C5. The claim: \<^verbatim>\<open>commitBlock\<close> never aborts on a validation failure; every
  transaction of the block gets one entry in the validation info, the valid ones are
  applied, and the block is stored in the ledger.

  The code has no handler around \<^verbatim>\<open>validateTransaction\<close>, which throws when the
  metadata text of the invoked chaincode is not JSON, or parses to a value without an
  endorsement policy. The metadata lives in the world state under the key
  \<^verbatim>\<open>CHAINCODE:\<close> followed by the name of the chaincode, where the write set of a valid
  transaction can put any text. In the block below, committed on the world state where
  \<^verbatim>\<open>basic\<close> is deployed, the first transaction is \<^verbatim>\<open>VALID\<close> and writes such a text;
  the validation of the second transaction, which ought to end with a code, throws,
  and \<^verbatim>\<open>commitBlock\<close> ends with that exception: no validation info is recorded, and
  the block is not stored, although the write of the first transaction is applied.
\<close>

theorem commitBlock_aborts_on_unreadable_metadata:
  "validateTransaction toyEnv toyMSP (worldStateStore committer0) (poison ''{}'') 3 0
     = Inr \<lparr>code = VALID, message = None\<rparr>
   \<and> getState (applyValidTransaction toyEnv (worldStateStore committer0) (poison ''{}'') 3 0)
       ''CHAINCODE:basic'' = Some ''{}''
   \<and> validateTransaction toyEnv toyMSP
       (applyValidTransaction toyEnv (worldStateStore committer0) (poison ''{}'') 3 0)
       (transfer ''tx-b'' ''signed-with:pk-Org1Client'') 3 1
     = Inl (TypeError ''Cannot read properties of undefined (reading type)'')
   \<and> commitBlock toyEnv toyMSP committer0 (poisonedBlock ''{}'')
     = Inl (TypeError ''Cannot read properties of undefined (reading type)'')
   \<and> validateTransaction toyEnv toyMSP (worldStateStore committer0) (poison ''not json'') 3 0
     = Inr \<lparr>code = VALID, message = None\<rparr>
   \<and> commitBlock toyEnv toyMSP committer0 (poisonedBlock ''not json'')
     = Inl (SyntaxError ''Unexpected token'')"
proof -
  have ws: "worldStateStore committer0 = fundedStore"
    by (simp add: committer0_def)
  have key: "''CHAINCODE:basic'' = chaincodeKey ''basic''"
    by (simp add: chaincodeKey_def)
  have a: "validateTransaction toyEnv toyMSP (worldStateStore committer0) (poison ''{}'') 3 0
     = Inr \<lparr>code = VALID, message = None\<rparr>"
    unfolding ws by (rule validateTransaction_poison)
  have b: "getState (applyValidTransaction toyEnv (worldStateStore committer0) (poison ''{}'') 3 0)
       ''CHAINCODE:basic'' = Some ''{}''"
    unfolding ws key poisonedStore_def [symmetric] by (rule getState_poisonedStore)
  have c: "validateTransaction toyEnv toyMSP
       (applyValidTransaction toyEnv (worldStateStore committer0) (poison ''{}'') 3 0)
       (transfer ''tx-b'' ''signed-with:pk-Org1Client'') 3 1
     = Inl (TypeError ''Cannot read properties of undefined (reading type)'')"
    unfolding ws poisonedStore_def [symmetric] by (rule validateTransaction_after_poison)
  have d: "commitBlock toyEnv toyMSP committer0 (poisonedBlock ''{}'')
     = Inl (TypeError ''Cannot read properties of undefined (reading type)'')"
    by (rule commitLoop_poisonedBlock) (rule validateTransaction_after_poison)
  have f: "validateTransaction toyEnv toyMSP (worldStateStore committer0) (poison ''not json'') 3 0
     = Inr \<lparr>code = VALID, message = None\<rparr>"
    unfolding ws by (rule validateTransaction_poison)
  have g: "commitBlock toyEnv toyMSP committer0 (poisonedBlock ''not json'')
     = Inl (SyntaxError ''Unexpected token'')"
    by (rule commitLoop_poisonedBlock) (rule validateTransaction_after_poison)
  show ?thesis
    by (intro conjI a b c d f g)
qed

section \<open>Solo consensus: the previous hash\<close>

text \<open>
  C9. The claim: for every block with a number above 0 that the orderer produces,
  \<^verbatim>\<open>previousHash\<close> is the stored hash of the block before it. \<^verbatim>\<open>createBlock\<close> writes
  the constant \<^verbatim>\<open>'0'\<close>: after two rounds of submission and block creation the second
  block has the number 1 and the previous hash \<^verbatim>\<open>'0'\<close>, while the hash that the ledger
  stores for the first block is a SHA-256 digest.
\<close>

theorem createBlock_previousHash_is_constant:
  "(let (b0, s1) = createBlock t0 (submitTx (newSoloConsensus n) tx0);
        (b1, s2) = createBlock t1 (submitTx s1 tx1)
    in b0 \<noteq> None \<and> number (header (the b0)) = 0
       \<and> b1 \<noteq> None \<and> number (header (the b1)) = 1
       \<and> previousHash (header (the b1)) = ''0''
       \<and> (\<exists>data. calculateBlockHash e (the b0) = Inr (hash e data)))"
  by (simp add: createBlock_def submitTx_def newSoloConsensus_def Let_def
      calculateBlockHash_digest)

end
